theory Spec2Isabelle
  imports Complex_Main "HOL-Library.Sublist"
begin

section \<open>JavaScript values used by the services\<close>

text \<open>
  \<open>localStorage.getItem\<close> returns \<open>string | null\<close>; the services test such values with
  \<open>if (x)\<close> and \<open>if (!x)\<close>. In JavaScript \<open>null\<close> and the empty string are falsy, every
  other string is truthy.
\<close>

definition truthy :: "string option \<Rightarrow> bool" where
  "truthy v = (case v of None \<Rightarrow> False | Some s \<Rightarrow> s \<noteq> [])"

text \<open>
  Errors that travel down an observable's error channel: an \<open>HttpErrorResponse\<close> (the url
  and the status of the failed request, status 0 being a network failure, and the
  \<open>error\<close> payload that \<open>handleError\<close> inspects) or a plain \<open>new Error(message)\<close>.
\<close>

datatype error_payload =
    ErrorEvent string
  | TextPayload string
  | ObjectPayload "string option"
  | NoPayload

datatype js_error = HttpErrorResponse string nat error_payload | Error string

text \<open>\<open>error.status\<close>; a plain \<open>Error\<close> has none (\<open>undefined\<close>).\<close>

fun error_status :: "js_error \<Rightarrow> nat option" where
  "error_status (HttpErrorResponse u st p) = Some st"
| "error_status (Error m) = None"

datatype http_method = GET | POST | DELETE

datatype http_body =
    NoBody
  | EmptyObject
  | RefreshTokenBody string
  | LoginRequestBody string string "string option"
  | RegistrationRequestBody string string string string string
  | RatingRequestBody int real "string option"

record http_request =
  req_method :: http_method
  req_url :: string
  req_headers :: "string \<rightharpoonup> string"
  req_body :: http_body

definition http_get :: "string \<Rightarrow> http_request" where
  "http_get u = \<lparr>req_method = GET, req_url = u, req_headers = Map.empty, req_body = NoBody\<rparr>"

definition http_post :: "string \<Rightarrow> http_body \<Rightarrow> http_request" where
  "http_post u b = \<lparr>req_method = POST, req_url = u, req_headers = Map.empty, req_body = b\<rparr>"

definition http_delete :: "string \<Rightarrow> http_request" where
  "http_delete u = \<lparr>req_method = DELETE, req_url = u, req_headers = Map.empty, req_body = NoBody\<rparr>"

text \<open>
  What a service method hands back to its caller. The methods return cold observables;
  the shapes the modelled methods build are: \<open>of(v)\<close> (emits \<open>v\<close> and completes, no
  request), \<open>throwError(e)\<close> (fails at once, no request), an \<open>http\<close> call piped through the
  method's own callbacks (the callbacks are the \<open>_tap\<close>, \<open>_catchError\<close> functions below,
  run when the response arrives), and the pipeline on the refresh subject.
\<close>

datatype 'a observable = Of 'a | ThrowError js_error | Http http_request | FromSubject

text \<open>
  \<open>FromSubject\<close> is the pipeline \<open>refreshTokenSubject.pipe(filter, take(1), switchMap)\<close> that
  \<open>refreshToken\<close> returns to a caller who finds a refresh in flight. The requests that
  subscribing to an observable sends:
\<close>

fun requests_of :: "'a observable \<Rightarrow> http_request list" where
  "requests_of (Of v) = []"
| "requests_of (ThrowError e) = []"
| "requests_of (Http r) = [r]"
| "requests_of FromSubject = []"

text \<open>Template literals \<open>`${n}`\<close> of an integral number: its decimal digits.\<close>

definition digit_char :: "nat \<Rightarrow> char" where
  "digit_char d = char_of (48 + d)"

function string_of_nat :: "nat \<Rightarrow> string" where
  "string_of_nat n =
     (if n < 10 then [digit_char n] else string_of_nat (n div 10) @ [digit_char (n mod 10)])"
  by pat_completeness auto
termination
  by (relation "measure id") auto

declare string_of_nat.simps [simp del]

definition string_of_int :: "int \<Rightarrow> string" where
  "string_of_int i = (if i < 0 then CHR ''-'' # string_of_nat (nat (- i)) else string_of_nat (nat i))"

definition API_BASE_URL :: string where
  \<comment> \<open>\<open>environment.apiBaseUrl\<close>, as in \<open>environment.prod.ts\<close>\<close>
  "API_BASE_URL = ''https://elanor-nonprofessed-venus.ngrok-free.dev''"

section \<open>NotificationService\<close>

datatype notification_type = Success | ErrorN | Warning | Info

text \<open>
  A toast as \<open>show\<close> appends it. The generated id (clock and random number) and the
  auto-dismiss timer are left out: no modelled method reads them.
\<close>

record notification =
  ntype :: notification_type
  message :: string

definition notify_success :: "string \<Rightarrow> notification list \<Rightarrow> notification list" where
  "notify_success m ns = ns @ [\<lparr>ntype = Success, message = m\<rparr>]"

definition notify_error :: "string \<Rightarrow> notification list \<Rightarrow> notification list" where
  "notify_error m ns = ns @ [\<lparr>ntype = ErrorN, message = m\<rparr>]"

section \<open>WatchlistService\<close>

record movie_summary =
  tmdbId :: int
  title :: string
  overview :: string
  posterPath :: "string option"
  backdropPath :: "string option"
  voteAverage :: real
  releaseYear :: int
  genres :: "string list"

text \<open>
  The signals of the service, and the toasts of the injected NotificationService.
  \<open>_watchlistIds\<close> is a \<open>Set<number>\<close>; only its membership is modelled.
\<close>

record watchlist_state =
  watchlistMovies :: "movie_summary list"
  watchlistIds :: "int set"
  watchlist_isLoading :: bool
  watchlist_error :: "string option"
  watchlist_toasts :: "notification list"

definition watchlist_apiUrl :: string where
  "watchlist_apiUrl = API_BASE_URL @ ''/api/movies''"

text \<open>\<open>fetchWatchlist\<close>: the call itself, then the \<open>tap\<close>, \<open>catchError\<close> and \<open>finalize\<close> callbacks.\<close>

definition fetchWatchlist :: "watchlist_state \<Rightarrow> watchlist_state \<times> movie_summary list observable" where
  "fetchWatchlist s =
     (s\<lparr>watchlist_isLoading := True, watchlist_error := None\<rparr>,
      Http (http_get (watchlist_apiUrl @ ''/watchlist'')))"

definition fetchWatchlist_tap :: "movie_summary list \<Rightarrow> watchlist_state \<Rightarrow> watchlist_state" where
  "fetchWatchlist_tap movies s =
     s\<lparr>watchlistMovies := movies, watchlistIds := set (map tmdbId movies)\<rparr>"

definition fetchWatchlist_catchError ::
  "js_error \<Rightarrow> watchlist_state \<Rightarrow> watchlist_state \<times> movie_summary list observable" where
  "fetchWatchlist_catchError err s =
     (s\<lparr>watchlist_error := Some ''Failed to fetch watchlist''\<rparr>, Of [])"

definition fetchWatchlist_finalize :: "watchlist_state \<Rightarrow> watchlist_state" where
  "fetchWatchlist_finalize s = s\<lparr>watchlist_isLoading := False\<rparr>"

text \<open>
  \<open>addToWatchlist\<close>: the optimistic insertion runs in the call; the request is the returned
  observable. On success the \<open>tap\<close> toasts and subscribes to \<open>fetchWatchlist()\<close> (whose
  request is returned). On failure \<open>catchError\<close> deletes the id again and rethrows.
\<close>

definition addToWatchlist :: "int \<Rightarrow> watchlist_state \<Rightarrow> watchlist_state \<times> unit observable" where
  "addToWatchlist i s =
     (s\<lparr>watchlistIds := watchlistIds s \<union> {i}\<rparr>,
      Http (http_post (watchlist_apiUrl @ ''/'' @ string_of_int i @ ''/watchlist'') EmptyObject))"

definition addToWatchlist_tap ::
  "watchlist_state \<Rightarrow> watchlist_state \<times> movie_summary list observable" where
  "addToWatchlist_tap s =
     fetchWatchlist (s\<lparr>watchlist_toasts := notify_success ''Added to watchlist'' (watchlist_toasts s)\<rparr>)"

definition addToWatchlist_catchError ::
  "int \<Rightarrow> js_error \<Rightarrow> watchlist_state \<Rightarrow> watchlist_state \<times> unit observable" where
  "addToWatchlist_catchError i err s =
     (s\<lparr>watchlistIds := watchlistIds s - {i},
        watchlist_error := Some ''Failed to add to watchlist'',
        watchlist_toasts := notify_error ''Failed to add to watchlist'' (watchlist_toasts s)\<rparr>,
      ThrowError err)"

text \<open>
  \<open>removeFromWatchlist\<close>: the call snapshots \<open>previousMovies\<close> (the movie list, not the id
  set), filters the list and deletes the id. The snapshot is the closure variable the
  error callback reads, so the call returns it and \<open>catchError\<close> takes it.
\<close>

definition removeFromWatchlist ::
  "int \<Rightarrow> watchlist_state \<Rightarrow> watchlist_state \<times> unit observable \<times> movie_summary list" where
  "removeFromWatchlist i s =
     (let previousMovies = watchlistMovies s in
      (s\<lparr>watchlistMovies := filter (\<lambda>m. tmdbId m \<noteq> i) (watchlistMovies s),
         watchlistIds := watchlistIds s - {i}\<rparr>,
       Http (http_delete (watchlist_apiUrl @ ''/'' @ string_of_int i @ ''/watchlist'')),
       previousMovies))"

definition removeFromWatchlist_tap :: "watchlist_state \<Rightarrow> watchlist_state" where
  "removeFromWatchlist_tap s =
     s\<lparr>watchlist_toasts := notify_success ''Removed from watchlist'' (watchlist_toasts s)\<rparr>"

definition removeFromWatchlist_catchError ::
  "movie_summary list \<Rightarrow> js_error \<Rightarrow> watchlist_state \<Rightarrow> watchlist_state \<times> unit observable" where
  "removeFromWatchlist_catchError previousMovies err s =
     (s\<lparr>watchlistMovies := previousMovies,
        watchlistIds := set (map tmdbId previousMovies),
        watchlist_error := Some ''Failed to remove from watchlist'',
        watchlist_toasts := notify_error ''Failed to remove from watchlist'' (watchlist_toasts s)\<rparr>,
      ThrowError err)"

definition isInWatchlist :: "int \<Rightarrow> watchlist_state \<Rightarrow> bool" where
  "isInWatchlist i s = (i \<in> watchlistIds s)"

text \<open>The state of a freshly constructed service.\<close>

definition watchlist_init :: watchlist_state where
  "watchlist_init =
     \<lparr>watchlistMovies = [], watchlistIds = {}, watchlist_isLoading = False,
      watchlist_error = None, watchlist_toasts = []\<rparr>"

text \<open>
  Two overlapping toggles of one id: \<open>addToWatchlist\<close>, then \<open>removeFromWatchlist\<close> before
  the first request settles; the add request succeeds, then the remove request fails.
\<close>

definition add_then_failed_remove :: "int \<Rightarrow> js_error \<Rightarrow> watchlist_state \<Rightarrow> watchlist_state" where
  "add_then_failed_remove i err s0 =
     (let s1 = fst (addToWatchlist i s0);
          (s2, req, previousMovies) = removeFromWatchlist i s1;
          s3 = fst (addToWatchlist_tap s2)
      in fst (removeFromWatchlist_catchError previousMovies err s3))"

text \<open>
  The same, with the response to the \<open>fetchWatchlist\<close> that the successful add started
  arriving before the remove request fails.
\<close>

definition add_refetched_then_failed_remove ::
  "int \<Rightarrow> movie_summary list \<Rightarrow> js_error \<Rightarrow> watchlist_state \<Rightarrow> watchlist_state" where
  "add_refetched_then_failed_remove i movies err s0 =
     (let s1 = fst (addToWatchlist i s0);
          (s2, req, previousMovies) = removeFromWatchlist i s1;
          s3 = fst (addToWatchlist_tap s2);
          s4 = fetchWatchlist_finalize (fetchWatchlist_tap movies s3)
      in fst (removeFromWatchlist_catchError previousMovies err s4))"

definition movie_7 :: movie_summary where
  "movie_7 =
     \<lparr>tmdbId = 7, title = ''Seven'', overview = [], posterPath = None, backdropPath = None,
      voteAverage = 4, releaseYear = 1995, genres = []\<rparr>"

section \<open>RatingService\<close>

record user_rating =
  rating_tmdbId :: int
  rating_title :: string
  rating_posterPath :: string
  rating_score :: real
  rating_comment :: "string option"
  ratedDate :: string

text \<open>
  \<open>score\<close> is a JavaScript number; it is modelled as a real, so fractional scores are
  covered (NaN is not: it is no number inside or outside a range).
\<close>

record rating_state =
  userRatings :: "user_rating list"
  ratingsMap :: "int \<rightharpoonup> real"
  rating_isLoading :: bool
  rating_error :: "string option"
  rating_toasts :: "notification list"

definition rating_apiUrl :: string where
  "rating_apiUrl = API_BASE_URL @ ''/api/ratings''"

definition fetchUserRatings :: "rating_state \<Rightarrow> rating_state \<times> user_rating list observable" where
  "fetchUserRatings s =
     (s\<lparr>rating_isLoading := True, rating_error := None\<rparr>, Http (http_get rating_apiUrl))"

text \<open>\<open>ratings.forEach(r => map.set(r.tmdbId, r.score))\<close>: a later entry overwrites an earlier one.\<close>

definition build_ratings_map :: "user_rating list \<Rightarrow> (int \<rightharpoonup> real)" where
  "build_ratings_map ratings = foldl (\<lambda>m r. m(rating_tmdbId r \<mapsto> rating_score r)) Map.empty ratings"

definition fetchUserRatings_tap :: "user_rating list \<Rightarrow> rating_state \<Rightarrow> rating_state" where
  "fetchUserRatings_tap ratings s =
     s\<lparr>userRatings := ratings, ratingsMap := build_ratings_map ratings\<rparr>"

text \<open>
  \<open>rateMovie\<close>: the range guard returns \<open>of(undefined)\<close> before anything else runs;
  otherwise the loading flag is set and the POST is returned. \<open>if (comment)\<close> keeps only a
  truthy comment in the request.
\<close>

definition rateMovie ::
  "int \<Rightarrow> real \<Rightarrow> string option \<Rightarrow> rating_state \<Rightarrow> rating_state \<times> unit observable" where
  "rateMovie i score comment s =
     (if score < 1 \<or> score > 5 then
        (s\<lparr>rating_error := Some ''Rating must be between 1 and 5'',
           rating_toasts := notify_error ''Rating must be between 1 and 5'' (rating_toasts s)\<rparr>,
         Of ())
      else
        (s\<lparr>rating_isLoading := True, rating_error := None\<rparr>,
         Http (http_post rating_apiUrl
                 (RatingRequestBody i score (if truthy comment then comment else None)))))"

definition rateMovie_tap ::
  "int \<Rightarrow> real \<Rightarrow> rating_state \<Rightarrow> rating_state \<times> user_rating list observable" where
  "rateMovie_tap i score s =
     fetchUserRatings
       (s\<lparr>ratingsMap := (ratingsMap s)(i \<mapsto> score),
          rating_toasts := notify_success ''Rating submitted!'' (rating_toasts s)\<rparr>)"

definition rateMovie_catchError ::
  "js_error \<Rightarrow> rating_state \<Rightarrow> rating_state \<times> unit observable" where
  "rateMovie_catchError err s =
     (s\<lparr>rating_error := Some ''Failed to submit rating'',
        rating_toasts := notify_error ''Failed to submit rating'' (rating_toasts s)\<rparr>,
      ThrowError err)"

definition rateMovie_finalize :: "rating_state \<Rightarrow> rating_state" where
  "rateMovie_finalize s = s\<lparr>rating_isLoading := False\<rparr>"


section \<open>AuthService\<close>

subsection \<open>Data\<close>

record user_profile =
  username :: string
  email :: string
  firstname :: string
  lastname :: string
  followersCount :: int
  followingCount :: int

record user = user_profile +
  avatar :: string

text \<open>
  A field of a parsed JSON response: absent (\<open>undefined\<close>), \<open>null\<close>, or a value.
\<close>

datatype 'a field = Undefined | Null | Value 'a

text \<open>
  \<open>TokenResponse\<close>. The interface declares every field as present, but nothing checks a
  response against it, and the service itself builds \<open>{ access_token: token } as
  TokenResponse\<close> for callers that waited: a field other than \<open>access_token\<close> can be
  absent, and a backend that has no value for it can send \<open>null\<close>.
\<close>

record token_response =
  access_token :: string
  refresh_token :: "string field"
  expires_in :: "int field"
  refresh_expires_in :: "int field"
  token_type :: "string field"

text \<open>
  The four \<open>localStorage\<close> entries under \<open>STORAGE_KEYS\<close>; \<open>None\<close> is an entry that is not
  there (\<open>getItem\<close> returns \<open>null\<close>).
\<close>

record local_storage =
  ACCESS_TOKEN :: "string option"
  REFRESH_TOKEN :: "string option"
  TOKEN_EXPIRY :: "string option"
  USER_PROFILE :: "string option"

text \<open>
  The fields of the service: the four signals, the \<open>BehaviorSubject\<close>'s current value and
  the \<open>isRefreshing\<close> flag. Two logs stand for the collaborators the service drives by
  itself: \<open>navigations\<close> for \<open>router.navigate\<close>, and \<open>sent\<close> for the requests of
  observables that the service subscribes to on its own (\<open>logout\<close>).
\<close>

record auth_state =
  storage :: local_storage
  currentUser :: "user option"
  isLoggedIn :: bool
  isLoading :: bool
  auth_error :: "string option"
  refreshTokenSubject :: "string option"
  isRefreshing :: bool
  navigations :: "string list"
  sent :: "http_request list"

definition auth_apiUrl :: string where
  "auth_apiUrl = API_BASE_URL @ ''/api/users''"

text \<open>\<open>JSON.parse(storedUser) as User\<close> throws, or yields \<open>null\<close> or a value.\<close>

datatype parse_result = SyntaxError | Parsed "user option"

subsection \<open>Strings and numbers\<close>

text \<open>
  Strings are sequences of bytes, a character beyond ASCII being its UTF-8 bytes.
  \<open>localStorage.setItem(key, value)\<close> stores \<open>String(value)\<close>: \<open>undefined\<close> and \<open>null\<close>
  become words.
\<close>

definition setItem_string :: "string field \<Rightarrow> string" where
  "setItem_string v = (case v of Undefined \<Rightarrow> ''undefined'' | Null \<Rightarrow> ''null'' | Value s \<Rightarrow> s)"

text \<open>
  \<open>parseInt(s, 10)\<close>: leading white space, an optional sign, then the longest run of
  decimal digits; \<open>NaN\<close> (here \<open>None\<close>) when there is no digit. Every comparison with
  \<open>NaN\<close> is false.

  The white space that is skipped is the language's \<open>StrWhiteSpaceChar\<close>: tab, line feed,
  vertical tab, form feed, carriage return, space, and beyond ASCII the no-break space,
  U+1680, U+2000 to U+200A, the line and paragraph separators, U+202F, U+205F, U+3000
  and U+FEFF, each as its UTF-8 bytes.

  The value is kept as the exact integer. JavaScript keeps the nearest double, which
  differs beyond \<open>2^53\<close>; rounding is monotone and leaves \<open>2^53\<close> itself alone, and the only
  use of the value is a comparison with \<open>Date.now()\<close>, whose magnitude stays below
  \<open>2^53\<close>, so every such comparison comes out as it does on the exact integer.
\<close>

definition is_digit :: "char \<Rightarrow> bool" where
  "is_digit c = (c \<in> set ''0123456789'')"

definition is_js_space :: "char \<Rightarrow> bool" where
  "is_js_space c = (c \<in> set [CHR '' '', CHR 0x09, CHR 0x0A, CHR 0x0B, CHR 0x0C, CHR 0x0D])"

definition is_js_space2 :: "char \<Rightarrow> char \<Rightarrow> bool" where
  \<comment> \<open>U+00A0\<close>
  "is_js_space2 a b = (a = CHR 0xC2 \<and> b = CHR 0xA0)"

definition is_js_space3 :: "char \<Rightarrow> char \<Rightarrow> char \<Rightarrow> bool" where
  \<comment> \<open>U+1680, U+2000..U+200A, U+2028, U+2029, U+202F, U+205F, U+3000, U+FEFF\<close>
  "is_js_space3 a b c =
     ((a = CHR 0xE1 \<and> b = CHR 0x9A \<and> c = CHR 0x80)
      \<or> (a = CHR 0xE2 \<and> b = CHR 0x80
          \<and> c \<in> set [CHR 0x80, CHR 0x81, CHR 0x82, CHR 0x83, CHR 0x84, CHR 0x85, CHR 0x86,
                      CHR 0x87, CHR 0x88, CHR 0x89, CHR 0x8A, CHR 0xA8, CHR 0xA9, CHR 0xAF])
      \<or> (a = CHR 0xE2 \<and> b = CHR 0x81 \<and> c = CHR 0x9F)
      \<or> (a = CHR 0xE3 \<and> b = CHR 0x80 \<and> c = CHR 0x80)
      \<or> (a = CHR 0xEF \<and> b = CHR 0xBB \<and> c = CHR 0xBF))"

fun skip_white_space :: "string \<Rightarrow> string" where
  "skip_white_space (a # b # c # cs) =
     (if is_js_space a then skip_white_space (b # c # cs)
      else if is_js_space2 a b then skip_white_space (c # cs)
      else if is_js_space3 a b c then skip_white_space cs
      else a # b # c # cs)"
| "skip_white_space [a, b] =
     (if is_js_space a then skip_white_space [b]
      else if is_js_space2 a b then []
      else [a, b])"
| "skip_white_space [a] = (if is_js_space a then [] else [a])"
| "skip_white_space [] = []"

fun digits_value :: "nat \<Rightarrow> string \<Rightarrow> nat" where
  "digits_value acc [] = acc"
| "digits_value acc (c # cs) = digits_value (acc * 10 + (of_char c - 48)) cs"

definition parseInt :: "string \<Rightarrow> int option" where
  "parseInt str =
     (let s = skip_white_space str;
          neg = (case s of [] \<Rightarrow> False | c # cs \<Rightarrow> c = CHR ''-'');
          r = (case s of [] \<Rightarrow> [] | c # cs \<Rightarrow> if c = CHR ''-'' \<or> c = CHR ''+'' then cs else s);
          ds = takeWhile is_digit r
      in if ds = [] then None
         else Some (if neg then - int (digits_value 0 ds) else int (digits_value 0 ds)))"

subsection \<open>Token management\<close>

definition getAccessToken :: "auth_state \<Rightarrow> string option" where
  "getAccessToken s = ACCESS_TOKEN (storage s)"

definition getRefreshToken :: "auth_state \<Rightarrow> string option" where
  "getRefreshToken s = REFRESH_TOKEN (storage s)"

definition isTokenExpired :: "int \<Rightarrow> auth_state \<Rightarrow> bool" where
  "isTokenExpired now s =
     (if \<not> truthy (TOKEN_EXPIRY (storage s)) then True
      else (case parseInt (the (TOKEN_EXPIRY (storage s))) of
              None \<Rightarrow> False
            | Some expiry \<Rightarrow> now \<ge> expiry))"

definition isAuthenticated :: "auth_state \<Rightarrow> bool" where
  "isAuthenticated s = (isLoggedIn s \<and> currentUser s \<noteq> None)"

text \<open>
  \<open>storeTokens\<close>: three unconditional \<open>setItem\<close> calls. With \<open>expires_in\<close> undefined the
  expiry is \<open>NaN\<close>, stored as the string \<open>NaN\<close>; with \<open>null\<close> the subtraction takes it as 0.
\<close>

definition storeTokens :: "token_response \<Rightarrow> int \<Rightarrow> auth_state \<Rightarrow> auth_state" where
  "storeTokens response now s =
     s\<lparr>storage := (storage s)
        \<lparr>ACCESS_TOKEN := Some (access_token response),
         REFRESH_TOKEN := Some (setItem_string (refresh_token response)),
         TOKEN_EXPIRY := Some (case expires_in response of
                                 Undefined \<Rightarrow> ''NaN''
                               | Null \<Rightarrow> string_of_int (now + (0 - 30) * 1000)
                               | Value e \<Rightarrow> string_of_int (now + (e - 30) * 1000))\<rparr>\<rparr>"

definition clearAuthState :: "auth_state \<Rightarrow> auth_state" where
  "clearAuthState s =
     s\<lparr>storage := \<lparr>ACCESS_TOKEN = None, REFRESH_TOKEN = None, TOKEN_EXPIRY = None, USER_PROFILE = None\<rparr>,
       currentUser := None,
       isLoggedIn := False,
       auth_error := None\<rparr>"

definition mapToUser :: "user_profile \<Rightarrow> user" where
  "mapToUser profile =
     \<lparr>username = username profile, email = email profile, firstname = firstname profile,
      lastname = lastname profile, followersCount = followersCount profile,
      followingCount = followingCount profile,
      avatar = ''https://api.dicebear.com/7.x/initials/svg?seed='' @ username profile
                 @ ''&backgroundColor=6366f1''\<rparr>"

subsection \<open>handleError\<close>

definition status_message :: "nat option \<Rightarrow> string \<Rightarrow> string" where
  "status_message st defaultMessage =
     (if st = Some 400 then ''Invalid request. Please check your input.''
      else if st = Some 401 then ''Invalid credentials. Please try again.''
      else if st = Some 403 then ''Access denied.''
      else if st = Some 404 then ''User not found.''
      else if st = Some 409 then ''Username or email already exists.''
      else if st = Some 500 then ''Server error. Please try again later.''
      else defaultMessage)"

fun handleError_message :: "js_error \<Rightarrow> string \<Rightarrow> string" where
  "handleError_message (Error m) d = status_message None d"
| "handleError_message (HttpErrorResponse u st (ErrorEvent m)) d = m"
| "handleError_message (HttpErrorResponse u st (TextPayload t)) d = t"
| "handleError_message (HttpErrorResponse u st (ObjectPayload mo)) d =
     (case mo of
        None \<Rightarrow> status_message (Some st) d
      | Some m \<Rightarrow> if m \<noteq> [] then m else status_message (Some st) d)"
| "handleError_message (HttpErrorResponse u st NoPayload) d = status_message (Some st) d"

definition handleError :: "js_error \<Rightarrow> string \<Rightarrow> auth_state \<Rightarrow> auth_state \<times> 'a observable" where
  "handleError err defaultMessage s =
     (s\<lparr>auth_error := Some (handleError_message err defaultMessage)\<rparr>,
      ThrowError (Error (handleError_message err defaultMessage)))"

subsection \<open>fetchUserProfile\<close>

definition fetchUserProfile :: "auth_state \<Rightarrow> auth_state \<times> user observable" where
  "fetchUserProfile s = (s, Http (http_get (auth_apiUrl @ ''/me'')))"

definition fetchUserProfile_tap :: "(user \<Rightarrow> string) \<Rightarrow> user_profile \<Rightarrow> auth_state \<Rightarrow> auth_state" where
  "fetchUserProfile_tap JSON_stringify profile s =
     s\<lparr>currentUser := Some (mapToUser profile),
       storage := (storage s)\<lparr>USER_PROFILE := Some (JSON_stringify (mapToUser profile))\<rparr>\<rparr>"

definition fetchUserProfile_catchError :: "js_error \<Rightarrow> auth_state \<Rightarrow> auth_state \<times> user observable" where
  "fetchUserProfile_catchError err s =
     ((if error_status err = Some 401 then clearAuthState s else s), ThrowError err)"

subsection \<open>register and login\<close>

definition register ::
  "string \<Rightarrow> string \<Rightarrow> string \<Rightarrow> string \<Rightarrow> string \<Rightarrow> auth_state \<Rightarrow> auth_state \<times> string observable" where
  "register u e f l p s =
     (s\<lparr>isLoading := True, auth_error := None\<rparr>,
      Http (http_post (auth_apiUrl @ ''/register'') (RegistrationRequestBody u e f l p)))"

definition register_catchError :: "js_error \<Rightarrow> auth_state \<Rightarrow> auth_state \<times> string observable" where
  "register_catchError err s = handleError err ''Registration failed'' (s\<lparr>isLoading := False\<rparr>)"

definition login ::
  "string \<Rightarrow> string \<Rightarrow> string option \<Rightarrow> auth_state \<Rightarrow> auth_state \<times> token_response observable" where
  "login u p totp s =
     (s\<lparr>isLoading := True, auth_error := None\<rparr>,
      Http (http_post (auth_apiUrl @ ''/login'') (LoginRequestBody u p totp)))"

text \<open>
  The \<open>tap\<close> of \<open>login\<close>; the \<open>switchMap\<close> after it subscribes to \<open>fetchUserProfile()\<close>, whose
  callbacks are the ones above.
\<close>

definition login_tap :: "token_response \<Rightarrow> int \<Rightarrow> auth_state \<Rightarrow> auth_state" where
  "login_tap response now s = (storeTokens response now s)\<lparr>isLoggedIn := True\<rparr>"

definition login_catchError :: "js_error \<Rightarrow> auth_state \<Rightarrow> auth_state \<times> token_response observable" where
  "login_catchError err s = handleError err ''Login failed'' s"

definition login_finalize :: "auth_state \<Rightarrow> auth_state" where
  "login_finalize s = s\<lparr>isLoading := False\<rparr>"

subsection \<open>refreshToken\<close>

text \<open>
  The call: without a (truthy) stored refresh token it clears the state and returns
  \<open>throwError\<close>; with a refresh in flight it returns the subject pipeline; otherwise it
  raises \<open>isRefreshing\<close>, resets the subject to \<open>null\<close> and returns the POST.
\<close>

definition refreshToken :: "auth_state \<Rightarrow> auth_state \<times> token_response observable" where
  "refreshToken s =
     (case getRefreshToken s of
        None \<Rightarrow> (clearAuthState s, ThrowError (Error ''No refresh token available''))
      | Some refreshToken \<Rightarrow>
          if refreshToken = [] then
            (clearAuthState s, ThrowError (Error ''No refresh token available''))
          else if isRefreshing s then (s, FromSubject)
          else (s\<lparr>isRefreshing := True, refreshTokenSubject := None\<rparr>,
                Http (http_post (auth_apiUrl @ ''/refresh'') (RefreshTokenBody refreshToken))))"

text \<open>
  What a waiting caller gets for a value \<open>token\<close> that passed \<open>filter(token !== null)\<close>:
  \<open>Inl e\<close> is \<open>throwError(e)\<close>, \<open>Inr r\<close> is \<open>of(r)\<close>. The empty string is the failure
  sentinel.
\<close>

definition waiter_switchMap :: "string \<Rightarrow> js_error + token_response" where
  "waiter_switchMap token =
     (if token = [] then Inl (Error ''Token refresh failed'')
      else Inr \<lparr>access_token = token, refresh_token = Undefined, expires_in = Undefined,
                refresh_expires_in = Undefined, token_type = Undefined\<rparr>)"

text \<open>
  The \<open>tap\<close> of the POST: store the tokens, lower the flag, \<open>next(access_token)\<close>.
\<close>

definition refreshToken_tap :: "token_response \<Rightarrow> int \<Rightarrow> auth_state \<Rightarrow> auth_state" where
  "refreshToken_tap response now s =
     (storeTokens response now s)
       \<lparr>isRefreshing := False, refreshTokenSubject := Some (access_token response)\<rparr>"

text \<open>
  The \<open>catchError\<close> of the POST, in two halves: up to and including \<open>next('')\<close>, during
  which the waiting subscribers run, and the rest (\<open>clearAuthState\<close>, navigation). The
  error is then rethrown.
\<close>

definition refreshToken_catchError_signal :: "auth_state \<Rightarrow> auth_state" where
  "refreshToken_catchError_signal s = s\<lparr>isRefreshing := False, refreshTokenSubject := Some []\<rparr>"

definition refreshToken_catchError_cleanup :: "auth_state \<Rightarrow> auth_state" where
  "refreshToken_catchError_cleanup s =
     (clearAuthState s)\<lparr>navigations := navigations (clearAuthState s) @ [''/auth'']\<rparr>"

definition refreshToken_catchError :: "js_error \<Rightarrow> auth_state \<Rightarrow> auth_state \<times> token_response observable" where
  "refreshToken_catchError err s =
     (refreshToken_catchError_cleanup (refreshToken_catchError_signal s), ThrowError err)"

subsection \<open>logout\<close>

definition logout :: "auth_state \<Rightarrow> auth_state" where
  "logout s =
     (let s1 = (if truthy (getRefreshToken s)
                then s\<lparr>sent := sent s @ [http_post (auth_apiUrl @ ''/logout'')
                                            (RefreshTokenBody (the (getRefreshToken s)))]\<rparr>
                else s);
          s2 = clearAuthState s1
      in s2\<lparr>navigations := navigations s2 @ [''/auth'']\<rparr>)"

definition clearError :: "auth_state \<Rightarrow> auth_state" where
  "clearError s = s\<lparr>auth_error := None\<rparr>"

subsection \<open>The constructor\<close>

text \<open>The field initialisers, over whatever \<open>localStorage\<close> holds at startup.\<close>

definition new_AuthService :: "local_storage \<Rightarrow> auth_state" where
  "new_AuthService st =
     \<lparr>storage = st, currentUser = None, isLoggedIn = False, isLoading = False, auth_error = None,
      refreshTokenSubject = None, isRefreshing = False, navigations = [], sent = []\<rparr>"

text \<open>
  Requests of the constructor. The application is bootstrapped with \<open>authInterceptor\<close>
  on every request of \<open>HttpClient\<close>, and the interceptor begins with
  \<open>injector.get(AuthService)\<close>. While the constructor of \<open>AuthService\<close> is running there is
  no instance to hand out: the injector reports the cycle HttpClient, interceptor,
  AuthService by throwing, the observable of the request fails with that error, and
  nothing is sent. So a request that the constructor subscribes to runs the
  \<open>catchError\<close> of its method at once, and then the error callback of the subscription;
  a subscription without one leaves the state as the \<open>catchError\<close> left it (the error is
  reported later, outside the constructor's \<open>try\<close>). An immediate \<open>throwError\<close> runs the
  error callback alone.
\<close>

definition circular_dependency :: js_error where
  "circular_dependency = Error ''Circular dependency in DI detected for AuthService''"

definition subscribe_in_constructor ::
  "(js_error \<Rightarrow> auth_state \<Rightarrow> auth_state \<times> 'a observable) \<Rightarrow> (auth_state \<Rightarrow> auth_state)
     \<Rightarrow> auth_state \<times> 'a observable \<Rightarrow> auth_state" where
  "subscribe_in_constructor method_catchError on_error so =
     (case snd so of
        Http r \<Rightarrow> on_error (fst (method_catchError circular_dependency (fst so)))
      | ThrowError e \<Rightarrow> on_error (fst so)
      | Of v \<Rightarrow> fst so
      | FromSubject \<Rightarrow> fst so)"

text \<open>
  \<open>initializeAuthState\<close>, which only the constructor calls. A stored expiry that does not
  parse is \<open>NaN\<close>, so \<open>Date.now() < expiryTime\<close> is false and the expired branch runs. In
  the unexpired branch \<open>fetchUserProfile().subscribe()\<close> has no error callback. In the
  expired branch a profile that does not parse leaves both signals untouched; the
  refresh is attempted either way, with \<open>clearAuthState\<close> as the error callback of the
  subscription.
\<close>

definition initializeAuthState :: "(string \<Rightarrow> parse_result) \<Rightarrow> int \<Rightarrow> auth_state \<Rightarrow> auth_state" where
  "initializeAuthState JSON_parse now s =
     (if truthy (getAccessToken s) \<and> truthy (USER_PROFILE (storage s)) \<and> truthy (TOKEN_EXPIRY (storage s))
      then
        (if (case parseInt (the (TOKEN_EXPIRY (storage s))) of None \<Rightarrow> False | Some expiryTime \<Rightarrow> now < expiryTime)
         then
           (case JSON_parse (the (USER_PROFILE (storage s))) of
              Parsed u \<Rightarrow>
                subscribe_in_constructor fetchUserProfile_catchError id
                  (fetchUserProfile (s\<lparr>currentUser := u, isLoggedIn := True\<rparr>))
            | SyntaxError \<Rightarrow> clearAuthState s)
         else
           subscribe_in_constructor refreshToken_catchError clearAuthState
             (refreshToken
               (case JSON_parse (the (USER_PROFILE (storage s))) of
                  Parsed u \<Rightarrow> s\<lparr>currentUser := u, isLoggedIn := True\<rparr>
                | SyntaxError \<Rightarrow> s)))
      else s)"

definition AuthService_constructor :: "(string \<Rightarrow> parse_result) \<Rightarrow> int \<Rightarrow> local_storage \<Rightarrow> auth_state" where
  "AuthService_constructor JSON_parse now st = initializeAuthState JSON_parse now (new_AuthService st)"

text \<open>A refresh request among the requests sent.\<close>

definition is_refresh_request :: "http_request \<Rightarrow> bool" where
  "is_refresh_request r = (req_method r = POST \<and> req_url r = auth_apiUrl @ ''/refresh'')"

subsection \<open>The states the service can be in\<close>

text \<open>
  Everything that changes the service's state after construction: a public method is
  called, or a callback of a pending request runs. Any of them can come at any time.
  Nobody but the service writes its four storage entries.
\<close>

datatype auth_event =
    CallRegister string string string string string
  | RegisterError js_error
  | CallLogin string string "string option"
  | LoginNext token_response int
  | LoginError js_error
  | LoginFinalize
  | CallRefreshToken
  | RefreshNext token_response int
  | RefreshErrorSignal
  | RefreshErrorCleanup
  | ProfileNext user_profile
  | ProfileError js_error
  | CallLogout
  | CallClearError

fun auth_step :: "(user \<Rightarrow> string) \<Rightarrow> auth_event \<Rightarrow> auth_state \<Rightarrow> auth_state" where
  "auth_step js (CallRegister u e f l p) s = fst (register u e f l p s)"
| "auth_step js (RegisterError err) s = fst (register_catchError err s)"
| "auth_step js (CallLogin u p totp) s = fst (login u p totp s)"
| "auth_step js (LoginNext response now) s = login_tap response now s"
| "auth_step js (LoginError err) s = fst (login_catchError err s)"
| "auth_step js LoginFinalize s = login_finalize s"
| "auth_step js CallRefreshToken s = fst (refreshToken s)"
| "auth_step js (RefreshNext response now) s = refreshToken_tap response now s"
| "auth_step js RefreshErrorSignal s = refreshToken_catchError_signal s"
| "auth_step js RefreshErrorCleanup s = refreshToken_catchError_cleanup s"
| "auth_step js (ProfileNext profile) s = fetchUserProfile_tap js profile s"
| "auth_step js (ProfileError err) s = fst (fetchUserProfile_catchError err s)"
| "auth_step js CallLogout s = logout s"
| "auth_step js CallClearError s = clearError s"

inductive reachable :: "(string \<Rightarrow> parse_result) \<Rightarrow> (user \<Rightarrow> string) \<Rightarrow> auth_state \<Rightarrow> bool"
  for JSON_parse :: "string \<Rightarrow> parse_result" and JSON_stringify :: "user \<Rightarrow> string" where
  reachable_construct: "reachable JSON_parse JSON_stringify (AuthService_constructor JSON_parse now st)"
| reachable_step:
    "reachable JSON_parse JSON_stringify s \<Longrightarrow> reachable JSON_parse JSON_stringify (auth_step JSON_stringify ev s)"

section \<open>Callers of refreshToken\<close>

text \<open>
  The service together with the parties around it: the callers subscribed to the subject
  pipeline and still waiting (\<open>waiters\<close>, in subscription order), the callers whose POST
  is awaiting its response (\<open>owners\<close>), the refresh requests that went out (\<open>network\<close>),
  and what each caller's subscription received (\<open>outcomes\<close>: \<open>Inl\<close> an error, \<open>Inr\<close> a
  value). Callers are numbered. A caller only records what it receives.
\<close>

record refresh_system =
  service :: auth_state
  waiters :: "nat list"
  owners :: "nat list"
  network :: "http_request list"
  outcomes :: "(nat \<times> (js_error + token_response)) list"

text \<open>
  Caller \<open>c\<close> calls \<open>refreshToken()\<close> and subscribes to what it returns. A
  \<open>BehaviorSubject\<close> replays its current value to a new subscriber, so a value other than
  \<open>null\<close> is delivered at once; on \<open>null\<close> the caller waits.
\<close>

definition caller_arrives :: "nat \<Rightarrow> refresh_system \<Rightarrow> refresh_system" where
  "caller_arrives c sys =
     (let (s, obs) = refreshToken (service sys) in
      case obs of
        ThrowError e \<Rightarrow> sys\<lparr>service := s, outcomes := outcomes sys @ [(c, Inl e)]\<rparr>
      | Http r \<Rightarrow> sys\<lparr>service := s, owners := owners sys @ [c], network := network sys @ [r]\<rparr>
      | FromSubject \<Rightarrow>
          (case refreshTokenSubject s of
             None \<Rightarrow> sys\<lparr>service := s, waiters := waiters sys @ [c]\<rparr>
           | Some token \<Rightarrow> sys\<lparr>service := s, outcomes := outcomes sys @ [(c, waiter_switchMap token)]\<rparr>)
      | Of v \<Rightarrow> sys\<lparr>service := s, outcomes := outcomes sys @ [(c, Inr v)]\<rparr>)"

definition callers_arrive :: "nat list \<Rightarrow> refresh_system \<Rightarrow> refresh_system" where
  "callers_arrive cs sys = foldl (\<lambda>y c. caller_arrives c y) sys cs"

text \<open>\<open>refreshTokenSubject.next(token)\<close> reaches every waiting subscriber; \<open>take(1)\<close> ends each.\<close>

definition subject_next :: "string \<Rightarrow> refresh_system \<Rightarrow> refresh_system" where
  "subject_next token sys =
     sys\<lparr>outcomes := outcomes sys @ map (\<lambda>w. (w, waiter_switchMap token)) (waiters sys),
         waiters := []\<rparr>"

text \<open>
  The response to the POST of owner \<open>c\<close> arrives. Success: the \<open>tap\<close> runs (its \<open>next\<close>
  reaches the waiters), then the response goes to the owner. Failure: \<open>catchError\<close> runs
  (its \<open>next('')\<close> reaches the waiters before the state is cleared), then the error goes
  to the owner.
\<close>

definition refresh_settles ::
  "nat \<Rightarrow> js_error + token_response \<Rightarrow> int \<Rightarrow> refresh_system \<Rightarrow> refresh_system" where
  "refresh_settles c res now sys =
     (if c \<notin> set (owners sys) then sys
      else case res of
        Inr response \<Rightarrow>
          (let y = subject_next (access_token response)
                     (sys\<lparr>service := refreshToken_tap response now (service sys)\<rparr>)
           in y\<lparr>owners := remove1 c (owners y), outcomes := outcomes y @ [(c, Inr response)]\<rparr>)
      | Inl err \<Rightarrow>
          (let y = subject_next [] (sys\<lparr>service := refreshToken_catchError_signal (service sys)\<rparr>);
               z = y\<lparr>service := refreshToken_catchError_cleanup (service y)\<rparr>
           in z\<lparr>owners := remove1 c (owners z), outcomes := outcomes z @ [(c, Inl err)]\<rparr>))"

definition outcomes_of :: "nat \<Rightarrow> refresh_system \<Rightarrow> (js_error + token_response) list" where
  "outcomes_of c sys = map snd (filter (\<lambda>p. fst p = c) (outcomes sys))"

section \<open>The HTTP interceptor\<close>

subsection \<open>Route classification\<close>

definition PUBLIC_ENDPOINTS :: "string list" where
  "PUBLIC_ENDPOINTS =
     [''/api/users/login'', ''/api/users/register'', ''/api/users/refresh'', ''/api/users/search'',
      ''/api/users/all'', ''/api/movies/trending'', ''/api/movies/popular'', ''/api/movies/random'',
      ''/api/movies/search'']"

definition AUTHENTICATED_ENDPOINTS :: "string list" where
  "AUTHENTICATED_ENDPOINTS =
     [''/api/users/me'', ''/api/users/logout'', ''/api/users/2fa/status'', ''/api/users/2fa/enable'',
      ''/api/users/2fa/verify'', ''/api/users/2fa/disable'']"

text \<open>
  A regular expression of the shape \<open>^pre C+ suf$\<close>, for a character class \<open>C\<close> that the
  first character of \<open>suf\<close> is not in: after \<open>pre\<close> comes a non-empty run of \<open>C\<close>, and what
  follows the longest such run is exactly \<open>suf\<close>.
\<close>

definition regex_test :: "string \<Rightarrow> (char \<Rightarrow> bool) \<Rightarrow> string \<Rightarrow> string \<Rightarrow> bool" where
  "regex_test pre cls suf path =
     (prefix pre path \<and>
      takeWhile cls (drop (length pre) path) \<noteq> [] \<and>
      dropWhile cls (drop (length pre) path) = suf)"

definition not_slash :: "char \<Rightarrow> bool" where
  "not_slash c = (c \<noteq> CHR ''/'')"

definition PUBLIC_PATTERNS :: "(string \<Rightarrow> bool) list" where
  "PUBLIC_PATTERNS =
     [regex_test ''/api/users/'' not_slash ''/followers'',
      regex_test ''/api/users/'' not_slash ''/following'',
      regex_test ''/api/movies/'' is_digit [],
      regex_test ''/api/movies/'' is_digit ''/similar'',
      regex_test ''/api/ratings/movie/'' is_digit ''/average'']"

definition userProfilePattern :: "string \<Rightarrow> bool" where
  "userProfilePattern = regex_test ''/api/users/'' not_slash []"

definition reservedUserPaths :: "string list" where
  "reservedUserPaths = [''me'', ''login'', ''register'', ''refresh'', ''logout'', ''search'']"

text \<open>\<open>path.split('/').pop() || ''\<close>: what follows the last slash.\<close>

definition last_segment :: "string \<Rightarrow> string" where
  "last_segment path = rev (takeWhile not_slash (rev path))"

text \<open>
  \<open>extractPath\<close>: \<open>new URL(url).pathname\<close>, or the url itself when the constructor throws
  (as it does for a string without a scheme). The browser's URL parser is a parameter:
  \<open>None\<close> is the throw.
\<close>

definition extractPath :: "(string \<Rightarrow> string option) \<Rightarrow> string \<Rightarrow> string" where
  "extractPath URL_pathname url = (case URL_pathname url of Some p \<Rightarrow> p | None \<Rightarrow> url)"

definition isPublic :: "(string \<Rightarrow> string option) \<Rightarrow> string \<Rightarrow> bool" where
  "isPublic URL_pathname url =
     (let path = extractPath URL_pathname url in
      if list_ex (\<lambda>endpoint. suffix endpoint path) AUTHENTICATED_ENDPOINTS then False
      else if list_ex (\<lambda>endpoint. sublist endpoint path) PUBLIC_ENDPOINTS then True
      else if list_ex (\<lambda>pattern. pattern path) PUBLIC_PATTERNS then True
      else if userProfilePattern path
              \<and> last_segment path \<notin> set reservedUserPaths
              \<and> \<not> prefix ''follow'' (last_segment path)
              \<and> \<not> prefix ''unfollow'' (last_segment path) then True
      else if prefix ''/api/movies/'' path \<and> \<not> sublist ''watchlist'' path then True
      else False)"

subsection \<open>authInterceptor\<close>

text \<open>The request handed to \<open>next\<close>: the bearer header only with a token and off the public routes.\<close>

definition authInterceptor_request ::
  "(string \<Rightarrow> string option) \<Rightarrow> http_request \<Rightarrow> auth_state \<Rightarrow> http_request" where
  "authInterceptor_request URL_pathname req s =
     (if truthy (getAccessToken s) \<and> \<not> isPublic URL_pathname (req_url req)
      then req\<lparr>req_headers := (req_headers req)(''Authorization'' \<mapsto> ''Bearer '' @ the (getAccessToken s))\<rparr>
      else req)"

definition isAuthEndpoint :: "string \<Rightarrow> bool" where
  "isAuthEndpoint url =
     (sublist ''/api/users/login'' url \<or> sublist ''/api/users/register'' url
      \<or> sublist ''/api/users/refresh'' url)"

text \<open>The condition under which the outer \<open>catchError\<close> starts a refresh.\<close>

definition refresh_on_error :: "js_error \<Rightarrow> http_request \<Rightarrow> auth_state \<Rightarrow> bool" where
  "refresh_on_error err req s =
     (error_status err = Some 401 \<and> \<not> isAuthEndpoint (req_url req) \<and> isLoggedIn s)"

text \<open>
  The \<open>switchMap\<close> after the refresh: the original request with the token read from
  storage at that moment (\<open>`Bearer ${null}`\<close> is \<open>Bearer null\<close>).
\<close>

definition retry_request :: "http_request \<Rightarrow> auth_state \<Rightarrow> http_request" where
  "retry_request req s =
     req\<lparr>req_headers := (req_headers req)
           (''Authorization'' \<mapsto> ''Bearer '' @ (case getAccessToken s of None \<Rightarrow> ''null'' | Some t \<Rightarrow> t))\<rparr>"

text \<open>
  The interceptor subscribes to \<open>refreshToken()\<close> and waits for what it delivers. The
  refresh request in flight (the one this call sends, or the one it found in flight)
  settles with \<open>refresh\<close>. Recorded: the state when the interceptor's callback runs, what
  it receives, the refresh requests this call sent, and whether the second half of the
  owner's \<open>catchError\<close> is still to run after the callback (the case of a waiter on a
  failed refresh).
\<close>

record refresh_wait =
  rw_state :: auth_state
  rw_outcome :: "js_error + token_response"
  rw_posts :: "http_request list"
  rw_cleanup_pending :: bool

definition await_refresh :: "int \<Rightarrow> js_error + token_response \<Rightarrow> auth_state \<Rightarrow> refresh_wait" where
  "await_refresh now refresh s =
     (let (s1, obs) = refreshToken s in
      case obs of
        ThrowError e \<Rightarrow>
          \<lparr>rw_state = s1, rw_outcome = Inl e, rw_posts = [], rw_cleanup_pending = False\<rparr>
      | Http r \<Rightarrow>
          (case refresh of
             Inr response \<Rightarrow>
               \<lparr>rw_state = refreshToken_tap response now s1, rw_outcome = Inr response,
                rw_posts = [r], rw_cleanup_pending = False\<rparr>
           | Inl e \<Rightarrow>
               \<lparr>rw_state = fst (refreshToken_catchError e s1), rw_outcome = Inl e,
                rw_posts = [r], rw_cleanup_pending = False\<rparr>)
      | FromSubject \<Rightarrow>
          (case refreshTokenSubject s1 of
             Some token \<Rightarrow>
               \<lparr>rw_state = s1, rw_outcome = waiter_switchMap token, rw_posts = [],
                rw_cleanup_pending = False\<rparr>
           | None \<Rightarrow>
               (case refresh of
                  Inr response \<Rightarrow>
                    \<lparr>rw_state = refreshToken_tap response now s1,
                     rw_outcome = waiter_switchMap (access_token response), rw_posts = [],
                     rw_cleanup_pending = False\<rparr>
                | Inl e \<Rightarrow>
                    \<lparr>rw_state = refreshToken_catchError_signal s1,
                     rw_outcome = waiter_switchMap [], rw_posts = [],
                     rw_cleanup_pending = True\<rparr>))
      | Of v \<Rightarrow> \<lparr>rw_state = s1, rw_outcome = Inr v, rw_posts = [], rw_cleanup_pending = False\<rparr>)"

text \<open>
  One request through the interceptor, from \<open>next(authReq)\<close> to what the caller receives.
  \<open>first\<close> is the outcome of \<open>next(authReq)\<close>, \<open>retry\<close> the outcome of \<open>next(retryReq)\<close> if it
  is sent. The inner \<open>catchError\<close> sits after the \<open>switchMap\<close>, so it runs \<open>logout()\<close> and
  rethrows both for a failed refresh and for a failed retry.
\<close>

record 'r interceptor_run =
  final :: auth_state
  handled :: "http_request list"
  refresh_posts :: "http_request list"
  result :: "js_error + 'r"

definition authInterceptor ::
  "(string \<Rightarrow> string option) \<Rightarrow> int \<Rightarrow> js_error + 'r \<Rightarrow> js_error + token_response \<Rightarrow> js_error + 'r
     \<Rightarrow> http_request \<Rightarrow> auth_state \<Rightarrow> 'r interceptor_run" where
  "authInterceptor URL_pathname now first refresh retry req s =
     (let authReq = authInterceptor_request URL_pathname req s in
      case first of
        Inr v \<Rightarrow> \<lparr>final = s, handled = [authReq], refresh_posts = [], result = Inr v\<rparr>
      | Inl err \<Rightarrow>
          if refresh_on_error err req s then
            (let w = await_refresh now refresh s;
                 finish = (\<lambda>t. if rw_cleanup_pending w then refreshToken_catchError_cleanup t else t)
             in case rw_outcome w of
                  Inr tr \<Rightarrow>
                    (case retry of
                       Inr v \<Rightarrow>
                         \<lparr>final = finish (rw_state w),
                          handled = [authReq, retry_request req (rw_state w)],
                          refresh_posts = rw_posts w, result = Inr v\<rparr>
                     | Inl retryError \<Rightarrow>
                         \<lparr>final = finish (logout (rw_state w)),
                          handled = [authReq, retry_request req (rw_state w)],
                          refresh_posts = rw_posts w, result = Inl retryError\<rparr>)
                | Inl refreshError \<Rightarrow>
                    \<lparr>final = finish (logout (rw_state w)), handled = [authReq],
                     refresh_posts = rw_posts w, result = Inl refreshError\<rparr>)
          else \<lparr>final = s, handled = [authReq], refresh_posts = [], result = Inl err\<rparr>)"

text \<open>The session is gone: nothing persisted, no profile, not logged in.\<close>

definition session_cleared :: "auth_state \<Rightarrow> bool" where
  "session_cleared s =
     (storage s = \<lparr>ACCESS_TOKEN = None, REFRESH_TOKEN = None, TOKEN_EXPIRY = None, USER_PROFILE = None\<rparr>
      \<and> currentUser s = None \<and> \<not> isLoggedIn s)"

section \<open>Sample data\<close>

text \<open>
  Concrete values for the instances below: a user, the string under which her profile
  is cached, a JSON parser and printer that know this one string, a storage whose
  access token ran out at millisecond 1000, and a token response.
\<close>

definition alice :: user where
  "alice =
     \<lparr>username = ''alice'', email = ''alice@example.org'', firstname = ''Alice'',
      lastname = ''Liddell'', followersCount = 0, followingCount = 0,
      avatar = ''https://api.dicebear.com/7.x/initials/svg?seed=alice&backgroundColor=6366f1''\<rparr>"

definition alice_profile :: user_profile where
  "alice_profile =
     \<lparr>username = ''alice'', email = ''alice@example.org'', firstname = ''Alice'',
      lastname = ''Liddell'', followersCount = 0, followingCount = 0\<rparr>"

definition alice_json :: string where
  "alice_json = ''{username:alice,email:alice@example.org,firstname:Alice,lastname:Liddell}''"

definition sample_parse :: "string \<Rightarrow> parse_result" where
  "sample_parse str = (if str = alice_json then Parsed (Some alice) else SyntaxError)"

definition sample_stringify :: "user \<Rightarrow> string" where
  "sample_stringify u = alice_json"

definition expired_storage :: local_storage where
  "expired_storage =
     \<lparr>ACCESS_TOKEN = Some ''old-access'', REFRESH_TOKEN = Some ''old-refresh'',
      TOKEN_EXPIRY = Some ''1000'', USER_PROFILE = Some alice_json\<rparr>"

definition new_tokens :: token_response where
  "new_tokens =
     \<lparr>access_token = ''new-access'', refresh_token = Value ''new-refresh'', expires_in = Value 300,
      refresh_expires_in = Value 1800, token_type = Value ''Bearer''\<rparr>"

text \<open>A response that carries a new access token and nothing else.\<close>

definition access_only :: token_response where
  "access_only =
     \<lparr>access_token = ''new-access'', refresh_token = Undefined, expires_in = Undefined,
      refresh_expires_in = Undefined, token_type = Undefined\<rparr>"

text \<open>A response whose refresh token is \<open>null\<close>.\<close>

definition null_refresh :: token_response where
  "null_refresh =
     \<lparr>access_token = ''new-access'', refresh_token = Null, expires_in = Value 300,
      refresh_expires_in = Value 1800, token_type = Value ''Bearer''\<rparr>"

text \<open>A response whose access token is the empty string.\<close>

definition empty_access :: token_response where
  "empty_access =
     \<lparr>access_token = [], refresh_token = Value ''new-refresh'', expires_in = Value 300,
      refresh_expires_in = Value 1800, token_type = Value ''Bearer''\<rparr>"

text \<open>A service holding a session, with nothing pending, and the parties around it.\<close>

definition logged_in :: auth_state where
  "logged_in = (new_AuthService expired_storage)\<lparr>currentUser := Some alice, isLoggedIn := True\<rparr>"

definition idle_system :: refresh_system where
  "idle_system = \<lparr>service = logged_in, waiters = [], owners = [], network = [], outcomes = []\<rparr>"

definition refresh_post :: "string \<Rightarrow> http_request" where
  "refresh_post rt = http_post (auth_apiUrl @ ''/refresh'') (RefreshTokenBody rt)"

text \<open>
  The URL constructor on the strings used below: a url under the API base (no query, no
  fragment) has the rest as its path; a string without a scheme makes it throw.
\<close>

definition sample_pathname :: "string \<Rightarrow> string option" where
  "sample_pathname url =
     (if prefix API_BASE_URL url then Some (drop (length API_BASE_URL) url) else None)"

definition trending_request :: http_request where
  "trending_request = http_get (API_BASE_URL @ ''/api/movies/trending'')"

definition ratings_request :: http_request where
  "ratings_request = http_get (API_BASE_URL @ ''/api/ratings'')"

definition trending_401 :: js_error where
  "trending_401 = HttpErrorResponse (API_BASE_URL @ ''/api/movies/trending'') 401 NoPayload"

definition trending_500 :: js_error where
  "trending_500 = HttpErrorResponse (API_BASE_URL @ ''/api/movies/trending'') 500 NoPayload"

definition ratings_401 :: js_error where
  "ratings_401 = HttpErrorResponse (API_BASE_URL @ ''/api/ratings'') 401 NoPayload"

definition refresh_500 :: js_error where
  "refresh_500 = HttpErrorResponse (API_BASE_URL @ ''/api/users/refresh'') 500 NoPayload"

text \<open>
  A first visit: nothing stored, the service constructed at millisecond 0. Then alice
  logs in; the token response arrives at millisecond 1000 and the profile after it.
\<close>

definition empty_storage :: local_storage where
  "empty_storage =
     \<lparr>ACCESS_TOKEN = None, REFRESH_TOKEN = None, TOKEN_EXPIRY = None, USER_PROFILE = None\<rparr>"

definition after_login :: auth_state where
  "after_login =
     auth_step sample_stringify LoginFinalize
       (auth_step sample_stringify (ProfileNext alice_profile)
         (auth_step sample_stringify (LoginNext new_tokens 1000)
           (auth_step sample_stringify (CallLogin ''alice'' ''Secr3t!'' None)
             (AuthService_constructor sample_parse 0 empty_storage))))"


section \<open>Optimistic watchlist updates\<close>

text \<open>
  Claim C6. For a movie id that is not in the watchlist id set, a call of
  \<open>addToWatchlist\<close> whose request fails leaves, after the error callback has run, the id
  set exactly as it was before the call, and the error is rethrown to the caller.
\<close>

theorem addToWatchlist_failure_restores_ids:
  assumes "i \<notin> watchlistIds s"
  shows "watchlistIds (fst (addToWatchlist_catchError i err (fst (addToWatchlist i s)))) = watchlistIds s
       \<and> snd (addToWatchlist_catchError i err (fst (addToWatchlist i s))) = ThrowError err"
  using assms by (auto simp: addToWatchlist_def addToWatchlist_catchError_def)

theorem addToWatchlist_failure_restores_ids_witness:
  "(7::int) \<notin> watchlistIds (watchlist_init\<lparr>watchlistIds := {3, 5}\<rparr>)
   \<and> watchlistIds (fst (addToWatchlist_catchError 7 (HttpErrorResponse ''/api/movies/7/watchlist'' 500 NoPayload)
        (fst (addToWatchlist 7 (watchlist_init\<lparr>watchlistIds := {3, 5}\<rparr>))))) = {3, 5}
   \<and> snd (addToWatchlist_catchError 7 (HttpErrorResponse ''/api/movies/7/watchlist'' 500 NoPayload)
        (fst (addToWatchlist 7 (watchlist_init\<lparr>watchlistIds := {3, 5}\<rparr>))))
       = ThrowError (HttpErrorResponse ''/api/movies/7/watchlist'' 500 NoPayload)"
proof -
  have h: "(7::int) \<notin> watchlistIds (watchlist_init\<lparr>watchlistIds := {3, 5}\<rparr>)"
    by (simp add: watchlist_init_def)
  from addToWatchlist_failure_restores_ids [OF h, of "HttpErrorResponse ''/api/movies/7/watchlist'' 500 NoPayload"] h
  show ?thesis by (simp add: watchlist_init_def)
qed

text \<open>
  Claim C5, evaluated on the code. Start from the empty watchlist, add movie 7, remove it
  again while the add request is pending, let the add request succeed and the remove
  request fail. The error callback of \<open>removeFromWatchlist\<close> rebuilds the id set from its
  snapshot of the movie list, which the optimistic step of \<open>addToWatchlist\<close> never touched:
  movie 7 is in the id set after the first call's optimistic step and absent after the
  rollback of the second, whether or not the refreshed list arrived in between.
\<close>

theorem overlapping_toggle_rollback_drops_id:
  "isInWatchlist 7 (fst (addToWatchlist 7 watchlist_init))
   \<and> \<not> isInWatchlist 7
         (add_then_failed_remove 7 (HttpErrorResponse ''/api/movies/7/watchlist'' 500 NoPayload) watchlist_init)
   \<and> \<not> isInWatchlist 7
         (add_refetched_then_failed_remove 7 [movie_7]
            (HttpErrorResponse ''/api/movies/7/watchlist'' 500 NoPayload) watchlist_init)"
  by (simp add: add_then_failed_remove_def add_refetched_then_failed_remove_def isInWatchlist_def
      addToWatchlist_def removeFromWatchlist_def addToWatchlist_tap_def fetchWatchlist_def
      fetchWatchlist_tap_def fetchWatchlist_finalize_def removeFromWatchlist_catchError_def
      watchlist_init_def Let_def)

section \<open>Rating validation\<close>

text \<open>
  Claim C10. For every score below 1 or above 5, \<open>rateMovie\<close> returns \<open>of(undefined)\<close>:
  no HTTP request, the ratings map and the ratings list unchanged, the error signal set
  to the range message, and the subscriber receives a value, not an error.
\<close>

theorem rateMovie_out_of_range:
  assumes "score < 1 \<or> score > 5"
  shows "requests_of (snd (rateMovie i score comment s)) = []
       \<and> ratingsMap (fst (rateMovie i score comment s)) = ratingsMap s
       \<and> userRatings (fst (rateMovie i score comment s)) = userRatings s
       \<and> rating_error (fst (rateMovie i score comment s)) = Some ''Rating must be between 1 and 5''
       \<and> snd (rateMovie i score comment s) = Of ()"
  using assms by (auto simp: rateMovie_def)

theorem rateMovie_out_of_range_witness:
  "((6::real) < 1 \<or> (6::real) > 5)
   \<and> requests_of (snd (rateMovie 42 6 None
        \<lparr>userRatings = [], ratingsMap = [42 \<mapsto> 3], rating_isLoading = False,
         rating_error = None, rating_toasts = []\<rparr>)) = []
   \<and> ratingsMap (fst (rateMovie 42 6 None
        \<lparr>userRatings = [], ratingsMap = [42 \<mapsto> 3], rating_isLoading = False,
         rating_error = None, rating_toasts = []\<rparr>)) = [42 \<mapsto> 3]
   \<and> rating_error (fst (rateMovie 42 6 None
        \<lparr>userRatings = [], ratingsMap = [42 \<mapsto> 3], rating_isLoading = False,
         rating_error = None, rating_toasts = []\<rparr>)) = Some ''Rating must be between 1 and 5''
   \<and> snd (rateMovie 42 6 None
        \<lparr>userRatings = [], ratingsMap = [42 \<mapsto> 3], rating_isLoading = False,
         rating_error = None, rating_toasts = []\<rparr>) = Of ()"
proof -
  have h: "(6::real) < 1 \<or> (6::real) > 5" by simp
  from rateMovie_out_of_range [OF h, of 42 None
      "\<lparr>userRatings = [], ratingsMap = [42 \<mapsto> 3], rating_isLoading = False,
        rating_error = None, rating_toasts = []\<rparr>"] h
  show ?thesis by simp
qed

section \<open>Refreshing without a refresh token\<close>

text \<open>
  Claim C4. When \<open>refreshToken\<close> is called and no refresh token is stored (\<open>getItem\<close>
  gives \<open>null\<close>, or the empty string, which the guard treats alike), it returns
  \<open>throwError\<close> with the no-refresh-token error, sends no request, and the session state
  is cleared: the four storage entries are gone, the profile is \<open>null\<close>, the logged-in
  flag is false and the error signal is reset. A caller that subscribes gets the error
  at once and nothing reaches the network.
\<close>

theorem refreshToken_without_token:
  assumes "\<not> truthy (getRefreshToken s)"
  shows "snd (refreshToken s) = ThrowError (Error ''No refresh token available'')
       \<and> requests_of (snd (refreshToken s)) = []
       \<and> sent (fst (refreshToken s)) = sent s
       \<and> session_cleared (fst (refreshToken s))
       \<and> auth_error (fst (refreshToken s)) = None
       \<and> (service sys = s \<longrightarrow>
            network (caller_arrives c sys) = network sys
          \<and> outcomes (caller_arrives c sys) = outcomes sys @ [(c, Inl (Error ''No refresh token available''))])"
  using assms
  by (auto simp: refreshToken_def truthy_def clearAuthState_def session_cleared_def
      caller_arrives_def split: option.splits)

theorem refreshToken_without_token_witness:
  "\<not> truthy (getRefreshToken (logged_in\<lparr>storage := expired_storage\<lparr>REFRESH_TOKEN := None\<rparr>\<rparr>))
   \<and> service (idle_system\<lparr>service := logged_in\<lparr>storage := expired_storage\<lparr>REFRESH_TOKEN := None\<rparr>\<rparr>\<rparr>)
       = logged_in\<lparr>storage := expired_storage\<lparr>REFRESH_TOKEN := None\<rparr>\<rparr>
   \<and> snd (refreshToken (logged_in\<lparr>storage := expired_storage\<lparr>REFRESH_TOKEN := None\<rparr>\<rparr>))
       = ThrowError (Error ''No refresh token available'')
   \<and> session_cleared (fst (refreshToken (logged_in\<lparr>storage := expired_storage\<lparr>REFRESH_TOKEN := None\<rparr>\<rparr>)))
   \<and> network (caller_arrives 0
        (idle_system\<lparr>service := logged_in\<lparr>storage := expired_storage\<lparr>REFRESH_TOKEN := None\<rparr>\<rparr>\<rparr>)) = []
   \<and> outcomes (caller_arrives 0
        (idle_system\<lparr>service := logged_in\<lparr>storage := expired_storage\<lparr>REFRESH_TOKEN := None\<rparr>\<rparr>\<rparr>))
       = [(0, Inl (Error ''No refresh token available''))]"
proof -
  let ?s = "logged_in\<lparr>storage := expired_storage\<lparr>REFRESH_TOKEN := None\<rparr>\<rparr>"
  have h: "\<not> truthy (getRefreshToken ?s)"
    by (simp add: truthy_def getRefreshToken_def)
  from refreshToken_without_token [OF h, of "idle_system\<lparr>service := ?s\<rparr>" 0] h
  show ?thesis by (simp add: idle_system_def)
qed

section \<open>What the success path of a refresh stores\<close>

text \<open>
  Claim C3, as the code has it. After the success path of \<open>refreshToken\<close> the stored
  refresh token is the \<open>refresh_token\<close> field of the response as \<open>setItem\<close> writes it: the
  rotated token when the response carries one, the string \<open>undefined\<close> when the field is
  absent, the string \<open>null\<close> when it is \<open>null\<close>. The stored access token is the new one,
  and the cached profile entry is left alone.
\<close>

theorem refreshToken_tap_stores_response:
  "REFRESH_TOKEN (storage (refreshToken_tap response now s))
     = Some (case refresh_token response of
               Undefined \<Rightarrow> ''undefined'' | Null \<Rightarrow> ''null'' | Value r \<Rightarrow> r)
   \<and> ACCESS_TOKEN (storage (refreshToken_tap response now s)) = Some (access_token response)
   \<and> USER_PROFILE (storage (refreshToken_tap response now s)) = USER_PROFILE (storage s)"
  by (simp add: refreshToken_tap_def storeTokens_def setItem_string_def)

theorem refresh_without_rotation_counterexample:
  "REFRESH_TOKEN (storage (fst (refreshToken logged_in))) = Some ''old-refresh''
   \<and> REFRESH_TOKEN (storage (refreshToken_tap access_only 3601000 (fst (refreshToken logged_in))))
       = Some ''undefined''
   \<and> REFRESH_TOKEN (storage (refreshToken_tap access_only 3601000 (fst (refreshToken logged_in))))
       \<noteq> REFRESH_TOKEN (storage (fst (refreshToken logged_in)))
   \<and> REFRESH_TOKEN (storage (refreshToken_tap null_refresh 3601000 (fst (refreshToken logged_in))))
       = Some ''null''
   \<and> REFRESH_TOKEN (storage (refreshToken_tap null_refresh 3601000 (fst (refreshToken logged_in))))
       \<noteq> REFRESH_TOKEN (storage (fst (refreshToken logged_in)))"
  by (simp add: refreshToken_def refreshToken_tap_def storeTokens_def setItem_string_def
      logged_in_def new_AuthService_def expired_storage_def access_only_def null_refresh_def
      getRefreshToken_def)

section \<open>One refresh for many callers\<close>

lemma caller_arrives_first:
  assumes "\<not> isRefreshing (service sys)" "getRefreshToken (service sys) = Some rt" "rt \<noteq> []"
  shows "caller_arrives c sys =
           sys\<lparr>service := (service sys)\<lparr>isRefreshing := True, refreshTokenSubject := None\<rparr>,
               owners := owners sys @ [c],
               network := network sys @ [refresh_post rt]\<rparr>"
  using assms by (simp add: caller_arrives_def refreshToken_def refresh_post_def)

lemma caller_arrives_in_flight:
  assumes "isRefreshing (service sys)" "getRefreshToken (service sys) = Some rt" "rt \<noteq> []"
    and "refreshTokenSubject (service sys) = None"
  shows "caller_arrives c sys = sys\<lparr>waiters := waiters sys @ [c]\<rparr>"
  using assms by (simp add: caller_arrives_def refreshToken_def)

lemma callers_arrive_in_flight:
  assumes "isRefreshing (service sys)" "getRefreshToken (service sys) = Some rt" "rt \<noteq> []"
    and "refreshTokenSubject (service sys) = None"
  shows "callers_arrive ws sys = sys\<lparr>waiters := waiters sys @ ws\<rparr>"
  using assms
proof (induction ws arbitrary: sys)
  case Nil
  then show ?case by (simp add: callers_arrive_def)
next
  case (Cons w ws)
  have step: "caller_arrives w sys = sys\<lparr>waiters := waiters sys @ [w]\<rparr>"
    using Cons.prems by (rule caller_arrives_in_flight)
  have "callers_arrive (w # ws) sys = callers_arrive ws (caller_arrives w sys)"
    by (simp add: callers_arrive_def)
  also have "\<dots> = (sys\<lparr>waiters := waiters sys @ [w]\<rparr>)\<lparr>waiters := waiters (sys\<lparr>waiters := waiters sys @ [w]\<rparr>) @ ws\<rparr>"
    unfolding step using Cons.prems by (intro Cons.IH) simp_all
  finally show ?case by simp
qed

lemma callers_arrive_Cons:
  "callers_arrive (c # ws) sys = callers_arrive ws (caller_arrives c sys)"
  by (simp add: callers_arrive_def)

lemma callers_arrive_idle:
  assumes "\<not> isRefreshing (service sys)" "getRefreshToken (service sys) = Some rt" "rt \<noteq> []"
  shows "callers_arrive (c # ws) sys =
           sys\<lparr>service := (service sys)\<lparr>isRefreshing := True, refreshTokenSubject := None\<rparr>,
               owners := owners sys @ [c],
               network := network sys @ [refresh_post rt],
               waiters := waiters sys @ ws\<rparr>"
proof -
  let ?y = "sys\<lparr>service := (service sys)\<lparr>isRefreshing := True, refreshTokenSubject := None\<rparr>,
               owners := owners sys @ [c],
               network := network sys @ [refresh_post rt]\<rparr>"
  have "callers_arrive (c # ws) sys = callers_arrive ws ?y"
    using assms by (simp add: callers_arrive_Cons caller_arrives_first)
  also have "\<dots> = ?y\<lparr>waiters := waiters ?y @ ws\<rparr>"
    using assms by (intro callers_arrive_in_flight [where rt = rt]) (simp_all add: getRefreshToken_def)
  finally show ?thesis by simp
qed

lemma refresh_settles_success:
  assumes "c \<in> set (owners sys)"
  shows "refresh_settles c (Inr response) now sys =
           sys\<lparr>service := refreshToken_tap response now (service sys),
               outcomes := outcomes sys @ map (\<lambda>w. (w, waiter_switchMap (access_token response))) (waiters sys)
                             @ [(c, Inr response)],
               waiters := [],
               owners := remove1 c (owners sys)\<rparr>"
  using assms by (simp add: refresh_settles_def subject_next_def Let_def)

lemma refresh_settles_failure:
  assumes "c \<in> set (owners sys)"
  shows "refresh_settles c (Inl err) now sys =
           sys\<lparr>service := refreshToken_catchError_cleanup (refreshToken_catchError_signal (service sys)),
               outcomes := outcomes sys @ map (\<lambda>w. (w, waiter_switchMap [])) (waiters sys) @ [(c, Inl err)],
               waiters := [],
               owners := remove1 c (owners sys)\<rparr>"
  using assms by (simp add: refresh_settles_def subject_next_def Let_def)

text \<open>
  Claim C1, as the code has it. Take a service with no refresh in flight, nobody
  waiting, and a non-empty stored refresh token. Let \<open>N \<ge> 1\<close> callers \<open>c, w1, \<dots>\<close> call
  \<open>refreshToken\<close> before the response arrives. Then one refresh request is sent, by the
  first caller; every later caller sends nothing and waits. When the request settles,
  no further request has been sent, nobody is left waiting and the flag is down again;
  on failure every waiter receives an error; on success with a non-empty access token
  every waiter receives that same token, the one the first caller's response carries.
\<close>

theorem single_flight_refresh:
  assumes "\<not> isRefreshing (service sys)" and "waiters sys = []"
    and "getRefreshToken (service sys) = Some rt" and "rt \<noteq> []"
    and "access_token response \<noteq> []"
  shows "network (callers_arrive (c # ws) sys) = network sys @ [refresh_post rt]
       \<and> waiters (callers_arrive (c # ws) sys) = ws
       \<and> owners (callers_arrive (c # ws) sys) = owners sys @ [c]
       \<and> network (refresh_settles c (Inr response) now (callers_arrive (c # ws) sys))
           = network sys @ [refresh_post rt]
       \<and> outcomes (refresh_settles c (Inr response) now (callers_arrive (c # ws) sys))
           = outcomes sys
             @ map (\<lambda>w. (w, Inr \<lparr>access_token = access_token response, refresh_token = Undefined,
                                  expires_in = Undefined, refresh_expires_in = Undefined, token_type = Undefined\<rparr>)) ws
             @ [(c, Inr response)]
       \<and> waiters (refresh_settles c (Inr response) now (callers_arrive (c # ws) sys)) = []
       \<and> \<not> isRefreshing (service (refresh_settles c (Inr response) now (callers_arrive (c # ws) sys)))
       \<and> network (refresh_settles c (Inl err) now (callers_arrive (c # ws) sys))
           = network sys @ [refresh_post rt]
       \<and> outcomes (refresh_settles c (Inl err) now (callers_arrive (c # ws) sys))
           = outcomes sys @ map (\<lambda>w. (w, Inl (Error ''Token refresh failed''))) ws @ [(c, Inl err)]
       \<and> waiters (refresh_settles c (Inl err) now (callers_arrive (c # ws) sys)) = []
       \<and> \<not> isRefreshing (service (refresh_settles c (Inl err) now (callers_arrive (c # ws) sys)))"
proof -
  let ?y = "callers_arrive (c # ws) sys"
  have y: "?y = sys\<lparr>service := (service sys)\<lparr>isRefreshing := True, refreshTokenSubject := None\<rparr>,
                     owners := owners sys @ [c],
                     network := network sys @ [refresh_post rt],
                     waiters := waiters sys @ ws\<rparr>"
    using assms(1,3,4) by (rule callers_arrive_idle)
  have own: "c \<in> set (owners ?y)" by (simp add: y)
  have arrived: "network ?y = network sys @ [refresh_post rt]" "waiters ?y = ws"
    "owners ?y = owners sys @ [c]" "outcomes ?y = outcomes sys"
    using assms(2) by (simp_all add: y)
  have ok: "waiter_switchMap (access_token response)
              = Inr \<lparr>access_token = access_token response, refresh_token = Undefined,
                     expires_in = Undefined, refresh_expires_in = Undefined, token_type = Undefined\<rparr>"
    using assms(5) by (simp add: waiter_switchMap_def)
  have bad: "waiter_switchMap [] = Inl (Error ''Token refresh failed'')"
    by (simp add: waiter_switchMap_def)
  show ?thesis
    unfolding refresh_settles_success [OF own] refresh_settles_failure [OF own]
    by (simp add: arrived ok bad refreshToken_tap_def refreshToken_catchError_cleanup_def
        refreshToken_catchError_signal_def clearAuthState_def)
qed

theorem single_flight_refresh_witness:
  "\<not> isRefreshing (service idle_system) \<and> waiters idle_system = []
   \<and> getRefreshToken (service idle_system) = Some ''old-refresh''
   \<and> access_token new_tokens \<noteq> []
   \<and> network (callers_arrive [0, 1, 2] idle_system) = [refresh_post ''old-refresh'']
   \<and> network (refresh_settles 0 (Inr new_tokens) 3601000 (callers_arrive [0, 1, 2] idle_system))
       = [refresh_post ''old-refresh'']
   \<and> outcomes (refresh_settles 0 (Inr new_tokens) 3601000 (callers_arrive [0, 1, 2] idle_system))
       = [(1, Inr \<lparr>access_token = ''new-access'', refresh_token = Undefined, expires_in = Undefined,
                   refresh_expires_in = Undefined, token_type = Undefined\<rparr>),
          (2, Inr \<lparr>access_token = ''new-access'', refresh_token = Undefined, expires_in = Undefined,
                   refresh_expires_in = Undefined, token_type = Undefined\<rparr>),
          (0, Inr new_tokens)]
   \<and> outcomes (refresh_settles 0 (Inl (HttpErrorResponse ''/api/users/refresh'' 401 NoPayload)) 3601000
                 (callers_arrive [0, 1, 2] idle_system))
       = [(1, Inl (Error ''Token refresh failed'')), (2, Inl (Error ''Token refresh failed'')),
          (0, Inl (HttpErrorResponse ''/api/users/refresh'' 401 NoPayload))]"
proof -
  have h1: "\<not> isRefreshing (service idle_system)"
    by (simp add: idle_system_def logged_in_def new_AuthService_def)
  have h2: "waiters idle_system = []" by (simp add: idle_system_def)
  have h3: "getRefreshToken (service idle_system) = Some ''old-refresh''"
    by (simp add: idle_system_def logged_in_def new_AuthService_def getRefreshToken_def expired_storage_def)
  have h4: "''old-refresh'' \<noteq> []" by simp
  have h5: "access_token new_tokens \<noteq> []" by (simp add: new_tokens_def)
  have out: "outcomes idle_system = []" "network idle_system = []" by (simp_all add: idle_system_def)
  from single_flight_refresh [OF h1 h2 h3 h4 h5, of 0 "[1, 2]" 3601000
      "HttpErrorResponse ''/api/users/refresh'' 401 NoPayload"] h1 h2 h3 h5
  show ?thesis by (simp add: out new_tokens_def)
qed

theorem empty_access_token_counterexample:
  "outcomes (refresh_settles 0 (Inr empty_access) 3601000 (callers_arrive [0, 1] idle_system))
     = [(1, Inl (Error ''Token refresh failed'')), (0, Inr empty_access)]"
proof -
  have h1: "\<not> isRefreshing (service idle_system)"
    by (simp add: idle_system_def logged_in_def new_AuthService_def)
  have h3: "getRefreshToken (service idle_system) = Some ''old-refresh''"
    by (simp add: idle_system_def logged_in_def new_AuthService_def getRefreshToken_def expired_storage_def)
  have y: "callers_arrive [0, 1] idle_system =
             idle_system\<lparr>service := (service idle_system)\<lparr>isRefreshing := True, refreshTokenSubject := None\<rparr>,
                     owners := owners idle_system @ [0],
                     network := network idle_system @ [refresh_post ''old-refresh''],
                     waiters := waiters idle_system @ [1]\<rparr>"
    using h1 h3 by (rule callers_arrive_idle) simp
  show ?thesis
    unfolding y
    by (simp add: refresh_settles_def subject_next_def Let_def idle_system_def
        waiter_switchMap_def empty_access_def)
qed

section \<open>Invariants of the service\<close>

lemma parseInt_1000: "parseInt ''1000'' = Some 1000"
  by (simp add: parseInt_def is_js_space_def is_js_space2_def is_js_space3_def is_digit_def Let_def)

lemma parseInt_271000: "parseInt ''271000'' = Some 271000"
  by (simp add: parseInt_def is_js_space_def is_js_space2_def is_js_space3_def is_digit_def Let_def)

lemma digit_chars:
  "digit_char 0 = CHR ''0''" "digit_char 1 = CHR ''1''" "digit_char 2 = CHR ''2''"
  "digit_char 7 = CHR ''7''"
proof -
  have "char_of (48 + 0 :: nat) = CHR ''0''" "char_of (48 + 1 :: nat) = CHR ''1''"
    "char_of (48 + 2 :: nat) = CHR ''2''" "char_of (48 + 7 :: nat) = CHR ''7''"
    by code_simp+
  then show "digit_char 0 = CHR ''0''" "digit_char 1 = CHR ''1''" "digit_char 2 = CHR ''2''"
    "digit_char 7 = CHR ''7''"
    unfolding digit_char_def by blast+
qed

lemma digit_char_Suc_0: "digit_char (Suc 0) = CHR ''1''"
  using digit_chars(2) by simp

lemma string_of_int_271000: "string_of_int 271000 = ''271000''"
  by (simp add: string_of_int_def string_of_nat.simps digit_chars digit_char_Suc_0)

lemma construct_keeps_token:
  assumes "isLoggedIn (AuthService_constructor JSON_parse now st)"
  shows "ACCESS_TOKEN (storage (AuthService_constructor JSON_parse now st)) \<noteq> None"
  using assms
  by (auto simp: AuthService_constructor_def initializeAuthState_def new_AuthService_def subscribe_in_constructor_def
      refreshToken_def refreshToken_catchError_def refreshToken_catchError_signal_def
      refreshToken_catchError_cleanup_def fetchUserProfile_def fetchUserProfile_catchError_def
      circular_dependency_def clearAuthState_def truthy_def getAccessToken_def
      getRefreshToken_def split: option.splits parse_result.splits if_splits)

lemma auth_step_keeps_token:
  assumes "isLoggedIn s \<Longrightarrow> ACCESS_TOKEN (storage s) \<noteq> None"
    and "isLoggedIn (auth_step js ev s)"
  shows "ACCESS_TOKEN (storage (auth_step js ev s)) \<noteq> None"
  using assms
  by (cases ev)
     (auto simp: register_def register_catchError_def handleError_def login_def login_tap_def
        login_catchError_def login_finalize_def refreshToken_def refreshToken_tap_def
        refreshToken_catchError_signal_def refreshToken_catchError_cleanup_def storeTokens_def
        fetchUserProfile_tap_def fetchUserProfile_catchError_def logout_def clearAuthState_def
        clearError_def Let_def split: option.splits if_splits)

lemma reachable_keeps_token:
  assumes "reachable JSON_parse JSON_stringify s" and "isLoggedIn s"
  shows "ACCESS_TOKEN (storage s) \<noteq> None"
  using assms
proof (induction rule: reachable.induct)
  case (reachable_construct now st)
  then show ?case by (rule construct_keeps_token)
next
  case (reachable_step s ev)
  show ?case
    by (rule auth_step_keeps_token [OF _ reachable_step.prems]) (rule reachable_step.IH)
qed

text \<open>While a refresh is in flight the subject holds \<open>null\<close>.\<close>

lemma construct_subject_null:
  assumes "isRefreshing (AuthService_constructor JSON_parse now st)"
  shows "refreshTokenSubject (AuthService_constructor JSON_parse now st) = None"
  using assms
  by (auto simp: AuthService_constructor_def initializeAuthState_def new_AuthService_def subscribe_in_constructor_def
      refreshToken_def refreshToken_catchError_def refreshToken_catchError_signal_def
      refreshToken_catchError_cleanup_def fetchUserProfile_def fetchUserProfile_catchError_def
      circular_dependency_def clearAuthState_def
      split: option.splits parse_result.splits if_splits)

lemma auth_step_subject_null:
  assumes "isRefreshing s \<Longrightarrow> refreshTokenSubject s = None"
    and "isRefreshing (auth_step js ev s)"
  shows "refreshTokenSubject (auth_step js ev s) = None"
  using assms
  by (cases ev)
     (auto simp: register_def register_catchError_def handleError_def login_def login_tap_def
        login_catchError_def login_finalize_def refreshToken_def refreshToken_tap_def
        refreshToken_catchError_signal_def refreshToken_catchError_cleanup_def storeTokens_def
        fetchUserProfile_tap_def fetchUserProfile_catchError_def logout_def clearAuthState_def
        clearError_def Let_def split: option.splits if_splits)

lemma reachable_subject_null:
  assumes "reachable JSON_parse JSON_stringify s" and "isRefreshing s"
  shows "refreshTokenSubject s = None"
  using assms
proof (induction rule: reachable.induct)
  case (reachable_construct now st)
  then show ?case by (rule construct_subject_null)
next
  case (reachable_step s ev)
  show ?case
    by (rule auth_step_subject_null [OF _ reachable_step.prems]) (rule reachable_step.IH)
qed

section \<open>What isAuthenticated guarantees\<close>

text \<open>
  Claim C9, as the code has it. In every state the service can reach, if
  \<open>isAuthenticated\<close> is true then an access token is stored and a user profile is cached
  in memory. Nothing is promised about the expiry of that token.
\<close>

theorem isAuthenticated_token_and_profile:
  assumes "reachable JSON_parse JSON_stringify s" and "isAuthenticated s"
  shows "getAccessToken s \<noteq> None \<and> currentUser s \<noteq> None"
  using assms reachable_keeps_token [of JSON_parse JSON_stringify s]
  by (simp add: isAuthenticated_def getAccessToken_def)

lemma after_login_state:
  "after_login =
     \<lparr>storage = \<lparr>ACCESS_TOKEN = Some ''new-access'', REFRESH_TOKEN = Some ''new-refresh'',
                 TOKEN_EXPIRY = Some ''271000'', USER_PROFILE = Some alice_json\<rparr>,
      currentUser = Some alice, isLoggedIn = True, isLoading = False, auth_error = None,
      refreshTokenSubject = None, isRefreshing = False, navigations = [], sent = []\<rparr>"
proof -
  have start: "AuthService_constructor sample_parse 0 empty_storage = new_AuthService empty_storage"
    by (simp add: AuthService_constructor_def initializeAuthState_def new_AuthService_def
        empty_storage_def truthy_def getAccessToken_def)
  have user: "mapToUser alice_profile = alice"
    by (simp add: mapToUser_def alice_profile_def alice_def)
  show ?thesis
    unfolding after_login_def start
    by (simp add: login_def login_tap_def login_finalize_def storeTokens_def setItem_string_def
        fetchUserProfile_tap_def new_AuthService_def empty_storage_def new_tokens_def user string_of_int_271000
        sample_stringify_def)
qed

lemma after_login_reachable: "reachable sample_parse sample_stringify after_login"
  unfolding after_login_def
  by (intro reachable_step reachable_construct)

theorem isAuthenticated_token_and_profile_witness:
  "reachable sample_parse sample_stringify after_login
   \<and> isAuthenticated after_login
   \<and> getAccessToken after_login \<noteq> None
   \<and> currentUser after_login \<noteq> None"
proof -
  have a: "isAuthenticated after_login"
    unfolding after_login_state by (simp add: isAuthenticated_def)
  from isAuthenticated_token_and_profile [OF after_login_reachable a] after_login_reachable a
  show ?thesis by simp
qed

text \<open>
  The login of the samples stores the expiry 271000 (300 seconds granted at millisecond
  1000, less the 30 seconds of margin). At millisecond 302000, 301 seconds after the
  login, nothing else has happened: the token is expired and \<open>isAuthenticated\<close> is true.
\<close>

theorem expired_after_login_counterexample:
  "reachable sample_parse sample_stringify after_login
   \<and> isAuthenticated after_login
   \<and> TOKEN_EXPIRY (storage after_login) = Some ''271000''
   \<and> isTokenExpired 302000 after_login"
proof -
  have a: "isAuthenticated after_login"
    unfolding after_login_state by (simp add: isAuthenticated_def)
  have e: "TOKEN_EXPIRY (storage after_login) = Some ''271000''"
    unfolding after_login_state by simp
  have x: "isTokenExpired 302000 after_login"
    by (simp add: isTokenExpired_def e truthy_def parseInt_271000)
  from after_login_reachable a e x show ?thesis by simp
qed

section \<open>Restoring an expired session\<close>

lemma restore_expired_state:
  assumes "truthy (ACCESS_TOKEN st)"
    and "USER_PROFILE st = Some p" and "p \<noteq> []" and "JSON_parse p = Parsed (Some u)"
    and "TOKEN_EXPIRY st = Some e" and "parseInt e = Some t" and "t \<le> now"
    and "REFRESH_TOKEN st = Some rt" and "rt \<noteq> []"
  shows "AuthService_constructor JSON_parse now st =
           (new_AuthService \<lparr>ACCESS_TOKEN = None, REFRESH_TOKEN = None, TOKEN_EXPIRY = None,
                              USER_PROFILE = None\<rparr>)
             \<lparr>refreshTokenSubject := Some [], navigations := [''/auth'']\<rparr>"
proof -
  have e: "e \<noteq> []" using assms(6) by (auto simp: parseInt_def)
  show ?thesis
    using assms e
    by (simp add: AuthService_constructor_def initializeAuthState_def new_AuthService_def truthy_def
        getAccessToken_def getRefreshToken_def subscribe_in_constructor_def refreshToken_def
        refreshToken_catchError_def refreshToken_catchError_signal_def
        refreshToken_catchError_cleanup_def clearAuthState_def)
qed

text \<open>
  Claim C7, evaluated on the code. The storage at startup holds an access token, the
  cached profile of alice, the expiry 1000 and a refresh token; the clock shows
  3601000, one hour later. The constructor restores the profile and calls
  \<open>refreshToken\<close>, but the request is subscribed while the service is still being
  constructed and fails in the interceptor before it is sent: no refresh request goes
  out, the \<open>catchError\<close> of \<open>refreshToken\<close> signals the failure, clears the session and
  navigates to the login page, and \<open>isAuthenticated\<close> is false. The claim says one
  refresh request and, once it succeeds, \<open>isAuthenticated\<close> true.
\<close>

theorem expired_restore_sends_no_refresh:
  "truthy (ACCESS_TOKEN expired_storage)
   \<and> USER_PROFILE expired_storage = Some alice_json \<and> sample_parse alice_json = Parsed (Some alice)
   \<and> TOKEN_EXPIRY expired_storage = Some ''1000'' \<and> parseInt ''1000'' = Some 1000
   \<and> REFRESH_TOKEN expired_storage = Some ''old-refresh''
   \<and> sent (AuthService_constructor sample_parse 3601000 expired_storage) = []
   \<and> filter is_refresh_request (sent (AuthService_constructor sample_parse 3601000 expired_storage)) = []
   \<and> \<not> isAuthenticated (AuthService_constructor sample_parse 3601000 expired_storage)
   \<and> session_cleared (AuthService_constructor sample_parse 3601000 expired_storage)
   \<and> refreshTokenSubject (AuthService_constructor sample_parse 3601000 expired_storage) = Some []
   \<and> navigations (AuthService_constructor sample_parse 3601000 expired_storage) = [''/auth'']"
proof -
  have h1: "truthy (ACCESS_TOKEN expired_storage)" by (simp add: expired_storage_def truthy_def)
  have h2: "USER_PROFILE expired_storage = Some alice_json" by (simp add: expired_storage_def)
  have h3: "alice_json \<noteq> []" by (simp add: alice_json_def)
  have h4: "sample_parse alice_json = Parsed (Some alice)" by (simp add: sample_parse_def)
  have h5: "TOKEN_EXPIRY expired_storage = Some ''1000''" by (simp add: expired_storage_def)
  have h7: "(1000::int) \<le> 3601000" by simp
  have h8: "REFRESH_TOKEN expired_storage = Some ''old-refresh''" by (simp add: expired_storage_def)
  have h9: "''old-refresh'' \<noteq> []" by simp
  note st = restore_expired_state [where JSON_parse = sample_parse and p = alice_json,
      OF h1 h2 h3 h4 h5 parseInt_1000 h7 h8 h9]
  from h1 h2 h4 h5 parseInt_1000 h8 show ?thesis
    unfolding st by (simp add: new_AuthService_def isAuthenticated_def session_cleared_def)
qed

section \<open>The bearer header\<close>

lemma trending_is_public: "isPublic sample_pathname (req_url trending_request)"
  by code_simp

lemma ratings_is_not_public: "\<not> isPublic sample_pathname (req_url ratings_request)"
  by code_simp

lemma ratings_is_not_auth: "\<not> isAuthEndpoint (req_url ratings_request)"
  by code_simp

lemma trending_is_not_auth: "\<not> isAuthEndpoint (req_url trending_request)"
  by code_simp

lemma logged_in_facts:
  "isLoggedIn logged_in" "\<not> isRefreshing logged_in"
  "getAccessToken logged_in = Some ''old-access''" "getRefreshToken logged_in = Some ''old-refresh''"
  by (simp_all add: logged_in_def new_AuthService_def expired_storage_def getAccessToken_def
      getRefreshToken_def)

text \<open>
  Claim C8, as the code has it. For a request to a public route, whether an access
  token is stored or not: the request the interceptor hands to \<open>next\<close> first is the
  request as it came, so it has no Authorization header unless it came with one. If
  the response is a success, or an error on which no refresh is started (any status but
  401, an auth url, or the logged-in flag down, as it is without a session), that is
  the only request. Only when a refresh is started and delivers a token does a second
  request follow, the retry, and that one carries the bearer header.
\<close>

theorem public_route_requests:
  assumes "isPublic URL_pathname (req_url req)"
  shows "authInterceptor_request URL_pathname req s = req
       \<and> handled (authInterceptor URL_pathname now (Inr v) refresh retry req s) = [req]
       \<and> (\<not> isLoggedIn s \<longrightarrow>
            handled (authInterceptor URL_pathname now first refresh retry req s) = [req])
       \<and> (\<not> refresh_on_error err req s \<longrightarrow>
            handled (authInterceptor URL_pathname now (Inl err) refresh retry req s) = [req])
       \<and> (refresh_on_error err req s \<longrightarrow>
            handled (authInterceptor URL_pathname now (Inl err) refresh retry req s)
              = req # (case rw_outcome (await_refresh now refresh s) of
                         Inl refreshError \<Rightarrow> []
                       | Inr tr \<Rightarrow>
                           [req\<lparr>req_headers := (req_headers req)
                                 (''Authorization'' \<mapsto> ''Bearer '' @
                                    (case getAccessToken (rw_state (await_refresh now refresh s)) of
                                       None \<Rightarrow> ''null'' | Some t \<Rightarrow> t))\<rparr>]))"
proof -
  have first_req: "authInterceptor_request URL_pathname req s = req"
    using assms by (simp add: authInterceptor_request_def)
  have ok: "handled (authInterceptor URL_pathname now (Inr v) refresh retry req s) = [req]"
    by (simp add: authInterceptor_def first_req)
  have plain: "handled (authInterceptor URL_pathname now (Inl e) refresh retry req s) = [req]"
    if "\<not> refresh_on_error e req s" for e
    using that by (simp add: authInterceptor_def first_req)
  have anon: "handled (authInterceptor URL_pathname now first refresh retry req s) = [req]"
    if "\<not> isLoggedIn s"
  proof (cases first)
    case (Inl e)
    have "\<not> refresh_on_error e req s" using that by (simp add: refresh_on_error_def)
    then show ?thesis unfolding Inl by (rule plain)
  next
    case (Inr x)
    then show ?thesis by (simp add: authInterceptor_def first_req)
  qed
  have again: "handled (authInterceptor URL_pathname now (Inl err) refresh retry req s)
              = req # (case rw_outcome (await_refresh now refresh s) of
                         Inl refreshError \<Rightarrow> []
                       | Inr tr \<Rightarrow>
                           [req\<lparr>req_headers := (req_headers req)
                                 (''Authorization'' \<mapsto> ''Bearer '' @
                                    (case getAccessToken (rw_state (await_refresh now refresh s)) of
                                       None \<Rightarrow> ''null'' | Some t \<Rightarrow> t))\<rparr>])"
    if "refresh_on_error err req s"
    using that
    by (cases retry)
       (simp_all add: authInterceptor_def first_req Let_def retry_request_def split: sum.splits)
  from first_req ok anon plain [of err] again show ?thesis by blast
qed

lemma trending_refresh_outcome:
  "rw_outcome (await_refresh 3601000 (Inr new_tokens) logged_in) = Inr new_tokens"
  "getAccessToken (rw_state (await_refresh 3601000 (Inr new_tokens) logged_in)) = Some ''new-access''"
  by (simp_all add: await_refresh_def refreshToken_def logged_in_facts refreshToken_tap_def
      storeTokens_def getAccessToken_def new_tokens_def)

theorem public_route_requests_witness:
  "isPublic sample_pathname (req_url trending_request)
   \<and> getAccessToken logged_in = Some ''old-access''
   \<and> authInterceptor_request sample_pathname trending_request logged_in = trending_request
   \<and> handled (authInterceptor sample_pathname 3601000 (Inr ''ok'') (Inr new_tokens) (Inr ''ok'')
        trending_request logged_in) = [trending_request]
   \<and> \<not> isLoggedIn (new_AuthService empty_storage)
   \<and> handled (authInterceptor sample_pathname 3601000 (Inl trending_401) (Inr new_tokens) (Inr ''ok'')
        trending_request (new_AuthService empty_storage)) = [trending_request]
   \<and> \<not> refresh_on_error trending_500 trending_request logged_in
   \<and> handled (authInterceptor sample_pathname 3601000 (Inl trending_500) (Inr new_tokens) (Inr ''ok'')
        trending_request logged_in) = [trending_request]
   \<and> refresh_on_error trending_401 trending_request logged_in
   \<and> handled (authInterceptor sample_pathname 3601000 (Inl trending_401) (Inr new_tokens) (Inr ''ok'')
        trending_request logged_in)
       = [trending_request,
          trending_request\<lparr>req_headers := [''Authorization'' \<mapsto> ''Bearer new-access'']\<rparr>]"
proof -
  have anon: "\<not> isLoggedIn (new_AuthService empty_storage)"
    by (simp add: new_AuthService_def)
  have no: "\<not> refresh_on_error trending_500 trending_request logged_in"
    by (simp add: refresh_on_error_def trending_500_def)
  have yes: "refresh_on_error trending_401 trending_request logged_in"
    using trending_is_not_auth by (simp add: refresh_on_error_def trending_401_def logged_in_facts)
  have hdr: "req_headers trending_request = Map.empty"
    by (simp add: trending_request_def http_get_def)
  note a = public_route_requests [OF trending_is_public, where s = logged_in and now = 3601000
      and v = "''ok''" and refresh = "Inr new_tokens" and retry = "Inr ''ok''" and err = trending_500
      and first = "Inr ''ok''"]
  note b = public_route_requests [OF trending_is_public, where s = logged_in and now = 3601000
      and v = "''ok''" and refresh = "Inr new_tokens" and retry = "Inr ''ok''" and err = trending_401
      and first = "Inr ''ok''"]
  note c = public_route_requests [OF trending_is_public, where s = "new_AuthService empty_storage"
      and now = 3601000 and v = "''ok''" and refresh = "Inr new_tokens" and retry = "Inr ''ok''"
      and err = trending_401 and first = "Inl trending_401"]
  from a b c trending_is_public anon no yes logged_in_facts(3) show ?thesis
    by (simp add: trending_refresh_outcome hdr)
qed

text \<open>
  An authenticated caller asks for a public route and the request succeeds: the one
  request that goes out has no Authorization header.
\<close>

theorem public_route_bearer_counterexample:
  "isPublic sample_pathname (req_url trending_request)
   \<and> getAccessToken logged_in = Some ''old-access''
   \<and> isAuthenticated logged_in
   \<and> handled (authInterceptor sample_pathname 3601000 (Inr ''ok'') (Inr new_tokens) (Inr ''ok'')
        trending_request logged_in) = [trending_request]
   \<and> req_headers trending_request ''Authorization'' = None"
proof -
  have a: "isAuthenticated logged_in"
    by (simp add: isAuthenticated_def logged_in_def)
  have first_req: "authInterceptor_request sample_pathname trending_request logged_in = trending_request"
    using trending_is_public by (simp add: authInterceptor_request_def)
  have h: "handled (authInterceptor sample_pathname 3601000 (Inr ''ok'') (Inr new_tokens) (Inr ''ok'')
        trending_request logged_in) = [trending_request]"
    by (simp add: authInterceptor_def first_req)
  have n: "req_headers trending_request ''Authorization'' = None"
    by (simp add: trending_request_def http_get_def)
  from trending_is_public logged_in_facts(3) a h n show ?thesis by simp
qed

section \<open>A 401 through the interceptor\<close>

lemma logout_clears: "session_cleared (logout s)"
  by (simp add: logout_def session_cleared_def clearAuthState_def Let_def)

lemma cleanup_clears: "session_cleared (refreshToken_catchError_cleanup s)"
  by (simp add: refreshToken_catchError_cleanup_def session_cleared_def clearAuthState_def)

text \<open>What the interceptor's callback finds after a refresh that delivered a value.\<close>

lemma await_refresh_token:
  assumes "isRefreshing s \<longrightarrow> refreshTokenSubject s = None"
    and "rw_outcome (await_refresh now refresh s) = Inr tr"
  shows "getAccessToken (rw_state (await_refresh now refresh s)) = Some (access_token tr)
       \<and> \<not> rw_cleanup_pending (await_refresh now refresh s)"
  using assms
  by (auto simp: await_refresh_def refreshToken_def refreshToken_tap_def storeTokens_def
      getAccessToken_def getRefreshToken_def waiter_switchMap_def
      split: option.splits sum.splits if_splits)

lemma await_refresh_posts:
  "rw_posts (await_refresh now refresh s) = requests_of (snd (refreshToken s))"
  by (auto simp: await_refresh_def refreshToken_def split: option.splits sum.splits)

text \<open>
  Claim C2, as the code has it. Let the response to a request be an error with status
  401, the url not contain a login, registration or refresh path, and the logged-in
  flag be set. Then the interceptor calls \<open>refreshToken\<close> (the refresh requests of the
  run are the ones of the observable it returns). If that delivers a token response,
  the interceptor hands exactly one more request to \<open>next\<close>, the original one with the
  new access token as bearer, and the caller receives whatever that retry yields. If it
  delivers an error, nothing more is handed to \<open>next\<close>, the session is cleared, and the
  caller receives the error of the refresh.
\<close>

theorem interceptor_401:
  assumes "error_status err = Some 401" and "\<not> isAuthEndpoint (req_url req)" and "isLoggedIn s"
    and "isRefreshing s \<longrightarrow> refreshTokenSubject s = None"
  shows "refresh_posts (authInterceptor URL_pathname now (Inl err) refresh retry req s)
           = requests_of (snd (refreshToken s))
       \<and> (case rw_outcome (await_refresh now refresh s) of
            Inr tr \<Rightarrow>
              handled (authInterceptor URL_pathname now (Inl err) refresh retry req s)
                = [authInterceptor_request URL_pathname req s,
                   req\<lparr>req_headers := (req_headers req)
                         (''Authorization'' \<mapsto> ''Bearer '' @ access_token tr)\<rparr>]
              \<and> result (authInterceptor URL_pathname now (Inl err) refresh retry req s) = retry
          | Inl refreshError \<Rightarrow>
              handled (authInterceptor URL_pathname now (Inl err) refresh retry req s)
                = [authInterceptor_request URL_pathname req s]
              \<and> result (authInterceptor URL_pathname now (Inl err) refresh retry req s)
                  = Inl refreshError
              \<and> session_cleared (final (authInterceptor URL_pathname now (Inl err) refresh retry req s)))"
proof -
  let ?w = "await_refresh now refresh s"
  have go: "refresh_on_error err req s"
    using assms(1-3) by (simp add: refresh_on_error_def)
  show ?thesis
  proof (cases "rw_outcome ?w")
    case (Inl refreshError)
    then show ?thesis
      using go
      by (simp add: authInterceptor_def Let_def await_refresh_posts logout_clears cleanup_clears)
  next
    case (Inr tr)
    have tok: "getAccessToken (rw_state ?w) = Some (access_token tr)"
      using await_refresh_token [OF assms(4) Inr] by simp
    show ?thesis
      using go Inr tok
      by (cases retry) (simp_all add: authInterceptor_def Let_def await_refresh_posts retry_request_def)
  qed
qed

lemma ratings_request_sent:
  "authInterceptor_request sample_pathname ratings_request logged_in
     = ratings_request\<lparr>req_headers := [''Authorization'' \<mapsto> ''Bearer old-access'']\<rparr>"
  using ratings_is_not_public
  by (simp add: authInterceptor_request_def logged_in_facts truthy_def ratings_request_def http_get_def)

lemma ratings_refresh_outcomes:
  "rw_outcome (await_refresh 3601000 (Inr new_tokens) logged_in) = Inr new_tokens"
  "rw_outcome (await_refresh 3601000 (Inl refresh_500) logged_in) = Inl refresh_500"
  by (simp_all add: await_refresh_def refreshToken_def logged_in_facts)

lemma ratings_refresh_request:
  "requests_of (snd (refreshToken logged_in)) = [refresh_post ''old-refresh'']"
  by (simp add: refreshToken_def logged_in_facts refresh_post_def)

theorem interceptor_401_witness:
  "error_status ratings_401 = Some 401 \<and> \<not> isAuthEndpoint (req_url ratings_request)
   \<and> isLoggedIn logged_in \<and> \<not> isRefreshing logged_in
   \<and> refresh_posts (authInterceptor sample_pathname 3601000 (Inl ratings_401) (Inr new_tokens)
        (Inr ''ok'') ratings_request logged_in) = [refresh_post ''old-refresh'']
   \<and> handled (authInterceptor sample_pathname 3601000 (Inl ratings_401) (Inr new_tokens)
        (Inr ''ok'') ratings_request logged_in)
       = [ratings_request\<lparr>req_headers := [''Authorization'' \<mapsto> ''Bearer old-access'']\<rparr>,
          ratings_request\<lparr>req_headers := [''Authorization'' \<mapsto> ''Bearer new-access'']\<rparr>]
   \<and> result (authInterceptor sample_pathname 3601000 (Inl ratings_401) (Inr new_tokens)
        (Inr ''ok'') ratings_request logged_in) = Inr ''ok''
   \<and> handled (authInterceptor sample_pathname 3601000 (Inl ratings_401) (Inl refresh_500)
        (Inr ''ok'') ratings_request logged_in)
       = [ratings_request\<lparr>req_headers := [''Authorization'' \<mapsto> ''Bearer old-access'']\<rparr>]
   \<and> result (authInterceptor sample_pathname 3601000 (Inl ratings_401) (Inl refresh_500)
        (Inr ''ok'') ratings_request logged_in) = Inl refresh_500
   \<and> session_cleared (final (authInterceptor sample_pathname 3601000 (Inl ratings_401)
        (Inl refresh_500) (Inr ''ok'') ratings_request logged_in))"
proof -
  have h1: "error_status ratings_401 = Some 401" by (simp add: ratings_401_def)
  have h4: "isRefreshing logged_in \<longrightarrow> refreshTokenSubject logged_in = None"
    by (simp add: logged_in_facts)
  have hdr: "req_headers ratings_request = Map.empty" "access_token new_tokens = ''new-access''"
    by (simp_all add: ratings_request_def http_get_def new_tokens_def)
  note ok = interceptor_401 [OF h1 ratings_is_not_auth logged_in_facts(1) h4,
      where URL_pathname = sample_pathname and now = 3601000 and refresh = "Inr new_tokens"
        and retry = "Inr ''ok''"]
  note bad = interceptor_401 [OF h1 ratings_is_not_auth logged_in_facts(1) h4,
      where URL_pathname = sample_pathname and now = 3601000 and refresh = "Inl refresh_500"
        and retry = "Inr ''ok''"]
  from ok bad h1 ratings_is_not_auth logged_in_facts(1,2) show ?thesis
    by (simp add: ratings_refresh_outcomes ratings_refresh_request ratings_request_sent hdr)
qed

theorem refresh_error_propagated_counterexample:
  "error_status ratings_401 = Some 401 \<and> \<not> isAuthEndpoint (req_url ratings_request)
   \<and> isLoggedIn logged_in
   \<and> result (authInterceptor sample_pathname 3601000 (Inl ratings_401) (Inl refresh_500)
        (Inr ''ok'') ratings_request logged_in) = Inl refresh_500
   \<and> Inl refresh_500 \<noteq> (Inl ratings_401 :: js_error + string)
   \<and> error_status refresh_500 = Some 500"
proof -
  have h1: "error_status ratings_401 = Some 401" by (simp add: ratings_401_def)
  have go: "refresh_on_error ratings_401 ratings_request logged_in"
    using ratings_is_not_auth by (simp add: refresh_on_error_def h1 logged_in_facts)
  have r: "result (authInterceptor sample_pathname 3601000 (Inl ratings_401) (Inl refresh_500)
        (Inr ''ok'') ratings_request logged_in) = Inl refresh_500"
    using go by (simp add: authInterceptor_def Let_def ratings_refresh_outcomes)
  have d: "Inl refresh_500 \<noteq> (Inl ratings_401 :: js_error + string)"
    "error_status refresh_500 = Some 500"
    by (simp_all add: refresh_500_def ratings_401_def)
  from h1 ratings_is_not_auth logged_in_facts(1) r d show ?thesis by simp
qed

end
